theory Spec2Isabelle
  imports Complex_Main
begin

section \<open>Data model\<close>

text \<open>
  Identifiers (Mongo ObjectIds, user ids) are compared by the routes through their string
  form (\<^verbatim>\<open>pdf.user.toString() === req.user.id\<close>), so they are strings here. Times
  (\<^verbatim>\<open>new Date()\<close>, \<^verbatim>\<open>Date.now\<close>) are natural numbers handed to the handler
  by its caller, fresh ids and the upload's uuid likewise.
\<close>

type_synonym oid = string
type_synonym time = nat

text \<open>\<^verbatim>\<open>req.user\<close>: the routes read \<^verbatim>\<open>req.user.id\<close> and \<^verbatim>\<open>req.user.role\<close>.
  After \<^verbatim>\<open>optionalAuth\<close> the request carries a user or none (\<open>None\<close>).\<close>

record user =
  uid :: oid
  role :: string

text \<open>JSON values of a request body; an object keeps its keys in insertion order.
  Numbers are rationals: the literals of the schema (0.5, 2, 14) are exact.\<close>

datatype jsval =
    JNull
  | JBool bool
  | JNum rat
  | JStr string
  | JArr "jsval list"
  | JObj "(string \<times> jsval) list"

type_synonym obj = "(string \<times> jsval) list"

text \<open>The PDF schema (models/PDF.js).\<close>

record pdf =
  pdf_id :: oid
  title :: string
  description :: string
  filename :: string
  originalName :: string
  filePath :: string
  fileSize :: nat
  mimeType :: string
  pageCount :: "nat option"
  pdf_user :: oid
  isPublic :: bool
  pdf_tags :: "string list"
  status :: string
  accessCount :: nat
  lastAccessed :: time
  pdf_createdAt :: time
  pdf_updatedAt :: time

text \<open>The annotation schema (models/Annotation.js); replies are embedded in their
  annotation. The \<^verbatim>\<open>_id\<close> that Mongoose gives a subdocument (a reply, a point of
  \<^verbatim>\<open>content.points\<close>) is not represented.\<close>

record reply =
  reply_user :: oid
  reply_text :: string
  reply_createdAt :: time

record annotation =
  ann_id :: oid
  ann_pdf :: oid
  ann_user :: oid
  page :: rat
  ann_type :: string
  content :: obj
  isPrivate :: bool
  replies :: "reply list"
  isResolved :: bool
  ann_tags :: "string list"
  ann_createdAt :: time
  ann_updatedAt :: time

text \<open>The durable state: the two collections and the paths present in the upload
  directory.\<close>

record db =
  pdfs :: "pdf list"
  annotations :: "annotation list"
  files :: "string list"

text \<open>What a handler answers: \<^verbatim>\<open>res.status(n).json(body)\<close>, or the error handed to
  \<^verbatim>\<open>next(error)\<close> (the error handler is outside these routes).\<close>

datatype body =
    Msg string
  | PdfSummary pdf
  | PdfDetail pdf "annotation list"
  | FileStream string nat
  | AnnotationBody "annotation option"
  | Annotations "annotation list"

datatype response = Reply nat body | NextError string

fun status_of :: "response \<Rightarrow> nat option" where
  "status_of (Reply n b) = Some n"
| "status_of (NextError e) = None"

section \<open>Annotation content\<close>

subsection \<open>Objects\<close>

definition obj_get :: "string \<Rightarrow> obj \<Rightarrow> jsval option" where
  "obj_get k ob = map_of ob k"

text \<open>Assignment to a property: an existing key keeps its place, a new key goes last.\<close>

fun obj_set :: "string \<Rightarrow> jsval \<Rightarrow> obj \<Rightarrow> obj" where
  "obj_set k v [] = [(k, v)]"
| "obj_set k v ((k', v') # ob) = (if k = k' then (k, v) # ob else (k', v') # obj_set k v ob)"

text \<open>The object literal \<^verbatim>\<open>{ ...a, ...b }\<close>: the properties of \<open>a\<close>, then those of \<open>b\<close>,
  assigned in order to a new object.\<close>

definition spread2 :: "obj \<Rightarrow> obj \<Rightarrow> obj" where
  "spread2 a b = fold (\<lambda>(k, v) ob. obj_set k v ob) (a @ b) []"

subsection \<open>The content schema\<close>

definition styleDefaults :: obj where
  "styleDefaults =
     [(''color'', JStr ''#FFFF00''), (''opacity'', JNum (1 / 2)), (''strokeWidth'', JNum 2),
      (''fontSize'', JNum 14), (''fontFamily'', JStr ''Arial'')]"

text \<open>The paths the schema declares under \<^verbatim>\<open>content\<close> and inside its nested objects.\<close>

definition contentKeys :: "string list" where
  "contentKeys = [''text'', ''coordinates'', ''bounds'', ''points'', ''style'']"

definition coordinateKeys :: "string list" where
  "coordinateKeys = [''x'', ''y'', ''width'', ''height'']"

definition boundsKeys :: "string list" where
  "boundsKeys = [''x1'', ''y1'', ''x2'', ''y2'']"

definition pointKeys :: "string list" where
  "pointKeys = [''x'', ''y'']"

definition styleKeys :: "string list" where
  "styleKeys = [''color'', ''opacity'', ''strokeWidth'', ''fontSize'', ''fontFamily'']"

text \<open>The schema is strict: when Mongoose casts a value to it (on create and on update),
  a key the schema does not declare is dropped, at the top level and inside the nested
  objects.\<close>

definition restrict_keys :: "string list \<Rightarrow> obj \<Rightarrow> obj" where
  "restrict_keys ks ob = filter (\<lambda>(k, v). k \<in> set ks) ob"

definition castPoint :: "jsval \<Rightarrow> jsval" where
  "castPoint p = (case p of JObj ob \<Rightarrow> JObj (restrict_keys pointKeys ob) | _ \<Rightarrow> p)"

definition castField :: "string \<Rightarrow> jsval \<Rightarrow> jsval" where
  "castField k v =
     (case v of
        JObj ob \<Rightarrow>
          if k = ''coordinates'' then JObj (restrict_keys coordinateKeys ob)
          else if k = ''bounds'' then JObj (restrict_keys boundsKeys ob)
          else if k = ''style'' then JObj (restrict_keys styleKeys ob)
          else v
      | JArr ps \<Rightarrow> if k = ''points'' then JArr (map castPoint ps) else v
      | _ \<Rightarrow> v)"

definition castContent :: "obj \<Rightarrow> obj" where
  "castContent c = map (\<lambda>(k, v). (k, castField k v)) (restrict_keys contentKeys c)"

text \<open>What a loaded document presents under \<^verbatim>\<open>content\<close> (the value of
  \<^verbatim>\<open>annotation.content\<close>): every declared path in the schema's order, a nested object
  that is unset as the empty object, the unset array as the empty array, and the style
  with the declared default at every key it leaves unset. An unset text is undefined,
  that is, left out.\<close>

definition hydrateStyle :: "obj \<Rightarrow> obj" where
  "hydrateStyle st = map (\<lambda>(k, d). (k, case obj_get k st of None \<Rightarrow> d | Some v \<Rightarrow> v)) styleDefaults"

definition hydrateContent :: "obj \<Rightarrow> obj" where
  "hydrateContent c =
     (case obj_get ''text'' c of None \<Rightarrow> [] | Some v \<Rightarrow> [(''text'', v)])
     @ [(''coordinates'', case obj_get ''coordinates'' c of None \<Rightarrow> JObj [] | Some v \<Rightarrow> v),
        (''bounds'', case obj_get ''bounds'' c of None \<Rightarrow> JObj [] | Some v \<Rightarrow> v),
        (''points'', case obj_get ''points'' c of None \<Rightarrow> JArr [] | Some v \<Rightarrow> v),
        (''style'', case obj_get ''style'' c of
                      Some (JObj st) \<Rightarrow> JObj (hydrateStyle st)
                    | _ \<Rightarrow> JObj styleDefaults)]"

text \<open>Saving a new document, and \<^verbatim>\<open>toJSON\<close> of a loaded one, leave out empty objects
  (the schema option \<^verbatim>\<open>minimize\<close>, on by default). An update is stored as it is cast.\<close>

definition minimize :: "obj \<Rightarrow> obj" where
  "minimize c = filter (\<lambda>(k, v). v \<noteq> JObj []) c"

text \<open>The annotation as a response carries it (\<^verbatim>\<open>toJSON\<close> of the loaded document). The
  virtuals (\<^verbatim>\<open>id\<close>, \<^verbatim>\<open>replyCount\<close>) and the populated user names are not
  represented.\<close>

definition toJSON :: "annotation \<Rightarrow> annotation" where
  "toJSON a = a\<lparr>content := minimize (hydrateContent (content a))\<rparr>"

subsection \<open>Validators\<close>

definition isHex :: "char \<Rightarrow> bool" where
  "isHex c = (c \<in> set ''0123456789abcdefABCDEF'')"

text \<open>\<^verbatim>\<open>/^#([A-Fa-f0-9]{6}|[A-Fa-f0-9]{3})$/\<close>\<close>

definition validColor :: "string \<Rightarrow> bool" where
  "validColor t =
     (case t of
        [] \<Rightarrow> False
      | c # r \<Rightarrow> c = CHR ''#'' \<and> (length r = 6 \<or> length r = 3) \<and> list_all isHex r)"

text \<open>A number path that is unset passes; a set one must be a number within the declared
  bounds. Here and below a value that is not of the declared type is rejected: what
  Mongoose would cast from another type is outside the model.\<close>

definition numberIn :: "rat \<Rightarrow> rat \<Rightarrow> jsval option \<Rightarrow> bool" where
  "numberIn lo hi v =
     (case v of None \<Rightarrow> True | Some (JNum n) \<Rightarrow> lo \<le> n \<and> n \<le> hi | Some _ \<Rightarrow> False)"

definition validStyle :: "obj \<Rightarrow> bool" where
  "validStyle st =
     ((case obj_get ''color'' st of None \<Rightarrow> True | Some (JStr c) \<Rightarrow> validColor c | Some _ \<Rightarrow> False)
      \<and> numberIn 0 1 (obj_get ''opacity'' st)
      \<and> numberIn 1 10 (obj_get ''strokeWidth'' st)
      \<and> numberIn 8 72 (obj_get ''fontSize'' st)
      \<and> (case obj_get ''fontFamily'' st of None \<Rightarrow> True | Some (JStr f) \<Rightarrow> True | Some _ \<Rightarrow> False))"

definition isNumber :: "jsval \<Rightarrow> bool" where
  "isNumber v = (case v of JNum n \<Rightarrow> True | _ \<Rightarrow> False)"

text \<open>An object of number paths (\<^verbatim>\<open>coordinates\<close>, \<^verbatim>\<open>bounds\<close>, a point).\<close>

definition numbersObject :: "jsval \<Rightarrow> bool" where
  "numbersObject v = (case v of JObj ob \<Rightarrow> list_all (\<lambda>(k, w). isNumber w) ob | _ \<Rightarrow> False)"

definition validContent :: "obj \<Rightarrow> bool" where
  "validContent c =
     ((case obj_get ''text'' c of None \<Rightarrow> True | Some (JStr t) \<Rightarrow> length t \<le> 1000 | Some _ \<Rightarrow> False)
      \<and> (case obj_get ''coordinates'' c of None \<Rightarrow> True | Some v \<Rightarrow> numbersObject v)
      \<and> (case obj_get ''bounds'' c of None \<Rightarrow> True | Some v \<Rightarrow> numbersObject v)
      \<and> (case obj_get ''points'' c of None \<Rightarrow> True | Some (JArr ps) \<Rightarrow> list_all numbersObject ps
          | Some _ \<Rightarrow> False)
      \<and> (case obj_get ''style'' c of None \<Rightarrow> True | Some (JObj st) \<Rightarrow> validStyle st | Some _ \<Rightarrow> False))"

text \<open>\<^verbatim>\<open>coordinates.x\<close> and \<^verbatim>\<open>coordinates.y\<close> are declared \<^verbatim>\<open>required\<close>.\<close>

definition hasCoordinates :: "obj \<Rightarrow> bool" where
  "hasCoordinates c =
     (case obj_get ''coordinates'' c of
        Some (JObj co) \<Rightarrow>
          (case (obj_get ''x'' co, obj_get ''y'' co) of
             (Some (JNum x), Some (JNum y)) \<Rightarrow> True
           | _ \<Rightarrow> False)
      | _ \<Rightarrow> False)"

definition annotationTypes :: "string list" where
  "annotationTypes = [''highlight'', ''text'', ''rectangle'', ''circle'', ''arrow'', ''freehand'']"

definition validTags :: "string list \<Rightarrow> bool" where
  "validTags ts = list_all (\<lambda>t. length t \<le> 20) ts"

section \<open>Store operations\<close>

definition findPdf :: "oid \<Rightarrow> db \<Rightarrow> pdf option" where
  "findPdf i s = find (\<lambda>p. pdf_id p = i) (pdfs s)"

definition findAnnotation :: "oid \<Rightarrow> db \<Rightarrow> annotation option" where
  "findAnnotation i s = find (\<lambda>a. ann_id a = i) (annotations s)"

text \<open>\<^verbatim>\<open>doc.save()\<close> of a loaded document: the stored document with that id is
  replaced.\<close>

definition savePdf :: "pdf \<Rightarrow> db \<Rightarrow> db" where
  "savePdf p s = s\<lparr>pdfs := map (\<lambda>q. if pdf_id q = pdf_id p then p else q) (pdfs s)\<rparr>"

definition saveAnnotation :: "annotation \<Rightarrow> db \<Rightarrow> db" where
  "saveAnnotation a s =
     s\<lparr>annotations := map (\<lambda>b. if ann_id b = ann_id a then a else b) (annotations s)\<rparr>"

text \<open>The virtual \<^verbatim>\<open>annotations\<close> of a PDF (\<^verbatim>\<open>foreignField: 'pdf'\<close>), and the query
  \<^verbatim>\<open>{ pdf: id }\<close>.\<close>

definition annotationsOf :: "oid \<Rightarrow> db \<Rightarrow> annotation list" where
  "annotationsOf i s = filter (\<lambda>a. ann_pdf a = i) (annotations s)"

section \<open>Reading a document\<close>

text \<open>Both read routes compute
  \<^verbatim>\<open>pdf.isPublic || (req.user && pdf.user.toString() === req.user.id)\<close>; the detail
  route reads the owner's id through the populated reference (\<^verbatim>\<open>pdf.user._id\<close>), which
  is taken to resolve.\<close>

definition hasAccess :: "pdf \<Rightarrow> user option \<Rightarrow> bool" where
  "hasAccess p v = (isPublic p \<or> (case v of None \<Rightarrow> False | Some u \<Rightarrow> pdf_user p = uid u))"

text \<open>\<^verbatim>\<open>GET /api/pdfs/:id\<close> (optionalAuth).\<close>

definition get_pdf :: "time \<Rightarrow> user option \<Rightarrow> oid \<Rightarrow> db \<Rightarrow> response \<times> db" where
  "get_pdf now v i s =
     (case findPdf i s of
        None \<Rightarrow> (Reply 404 (Msg ''PDF not found''), s)
      | Some p \<Rightarrow>
          if \<not> hasAccess p v then (Reply 403 (Msg ''Not authorized to access this PDF''), s)
          else
            let p' = p\<lparr>accessCount := accessCount p + 1, lastAccessed := now,
                        pdf_updatedAt := now\<rparr>;
                s' = savePdf p' s;
                anns = annotationsOf i s;
                anns' = (if (case v of None \<Rightarrow> True | Some u \<Rightarrow> pdf_user p \<noteq> uid u)
                         then filter (\<lambda>a. \<not> isPrivate a) anns else anns)
            in (Reply 200 (PdfDetail p' (map toJSON anns')), s'))"

text \<open>\<^verbatim>\<open>GET /api/pdfs/:id/file\<close> (optionalAuth).\<close>

definition get_pdf_file :: "user option \<Rightarrow> oid \<Rightarrow> db \<Rightarrow> response \<times> db" where
  "get_pdf_file v i s =
     (case findPdf i s of
        None \<Rightarrow> (Reply 404 (Msg ''PDF not found''), s)
      | Some p \<Rightarrow>
          if \<not> hasAccess p v then (Reply 403 (Msg ''Not authorized to access this PDF''), s)
          else if filePath p \<notin> set (files s)
          then (Reply 404 (Msg ''PDF file not found on server''), s)
          else (Reply 200 (FileStream (originalName p) (fileSize p)), s))"

text \<open>The policy of the specification (section 4.1), in its words: \<open>canView\<close> is true if
  the document is public or the viewer's id is the owner's; an anonymous viewer satisfies
  only the public branch.\<close>

definition canView_spec :: "pdf \<Rightarrow> user option \<Rightarrow> bool" where
  "canView_spec d v = (isPublic d \<or> (\<exists>u. v = Some u \<and> uid u = pdf_user d))"

section \<open>Authentication middleware\<close>

text \<open>Modelled from the spec: \<^verbatim>\<open>protect\<close> of middleware/auth.js, which is not among the
  sources. The specification gives 401 for an unauthenticated request (sections 6 and 7);
  an authenticated request reaches the handler with \<^verbatim>\<open>req.user\<close> set. Every route below
  that reads \<^verbatim>\<open>req.user.id\<close> unguarded is mounted behind it.\<close>

definition protect :: "user option \<Rightarrow> (user \<Rightarrow> db \<Rightarrow> response \<times> db) \<Rightarrow> db \<Rightarrow> response \<times> db" where
  "protect v handler s =
     (case v of
        None \<Rightarrow> (Reply 401 (Msg ''Not authorized''), s)
      | Some u \<Rightarrow> handler u s)"

section \<open>Deleting a document\<close>

text \<open>\<^verbatim>\<open>findByIdAndDelete\<close> removes the first document with the id.\<close>

fun delete_first :: "('a \<Rightarrow> bool) \<Rightarrow> 'a list \<Rightarrow> 'a list" where
  "delete_first P [] = []"
| "delete_first P (x # xs) = (if P x then xs else x # delete_first P xs)"

definition deleteMany_annotations :: "oid \<Rightarrow> db \<Rightarrow> db" where
  "deleteMany_annotations i s = s\<lparr>annotations := filter (\<lambda>a. ann_pdf a \<noteq> i) (annotations s)\<rparr>"

definition unlink_if_exists :: "string \<Rightarrow> db \<Rightarrow> db" where
  "unlink_if_exists path s =
     (if path \<in> set (files s) then s\<lparr>files := removeAll path (files s)\<rparr> else s)"

definition findByIdAndDelete_pdf :: "oid \<Rightarrow> db \<Rightarrow> db" where
  "findByIdAndDelete_pdf i s = s\<lparr>pdfs := delete_first (\<lambda>p. pdf_id p = i) (pdfs s)\<rparr>"

text \<open>The three effects of \<^verbatim>\<open>DELETE /api/pdfs/:id\<close> in the order the handler awaits
  them: the annotations of the document, the file, the document record. The annotations
  are removed by the handler's own \<^verbatim>\<open>Annotation.deleteMany\<close>; the schema's
  \<^verbatim>\<open>pre('remove')\<close> hook belongs to \<^verbatim>\<open>doc.remove()\<close>, which the handler does not
  call.\<close>

definition delete_pdf_effects :: "pdf \<Rightarrow> (db \<Rightarrow> db) list" where
  "delete_pdf_effects p =
     [deleteMany_annotations (pdf_id p), unlink_if_exists (filePath p),
      findByIdAndDelete_pdf (pdf_id p)]"

definition run_effects :: "(db \<Rightarrow> db) list \<Rightarrow> db \<Rightarrow> db" where
  "run_effects es s = fold (\<lambda>e t. e t) es s"

definition delete_pdf_handler :: "oid \<Rightarrow> user \<Rightarrow> db \<Rightarrow> response \<times> db" where
  "delete_pdf_handler i u s =
     (case findPdf i s of
        None \<Rightarrow> (Reply 404 (Msg ''PDF not found''), s)
      | Some p \<Rightarrow>
          if pdf_user p \<noteq> uid u \<and> role u \<noteq> ''admin''
          then (Reply 403 (Msg ''Not authorized to delete this PDF''), s)
          else (Reply 200 (Msg ''PDF deleted successfully''), run_effects (delete_pdf_effects p) s))"

definition delete_pdf :: "user option \<Rightarrow> oid \<Rightarrow> db \<Rightarrow> response \<times> db" where
  "delete_pdf v i s = protect v (delete_pdf_handler i) s"

text \<open>The handler stopped after its first \<open>k\<close> effects (a crash between two awaits).\<close>

definition delete_pdf_upto :: "nat \<Rightarrow> pdf \<Rightarrow> db \<Rightarrow> db" where
  "delete_pdf_upto k p s = run_effects (take k (delete_pdf_effects p)) s"

text \<open>All replies stored under the annotations of a document.\<close>

definition repliesOf :: "oid \<Rightarrow> db \<Rightarrow> reply list" where
  "repliesOf i s = concat (map replies (annotationsOf i s))"

section \<open>Uploading a document\<close>

text \<open>\<^verbatim>\<open>String.prototype.trim\<close> and the schema's \<^verbatim>\<open>trim: true\<close>, on the ASCII white
  space.\<close>

definition isSpace :: "char \<Rightarrow> bool" where
  "isSpace c = (c \<in> set [CHR '' '', CHR 0x09, CHR 0x0A, CHR 0x0B, CHR 0x0C, CHR 0x0D])"

definition trim :: "string \<Rightarrow> string" where
  "trim t = rev (dropWhile isSpace (rev (dropWhile isSpace t)))"

text \<open>\<^verbatim>\<open>path.extname\<close>: from the last dot of the last path segment, empty when that
  segment has no dot or only a leading one.\<close>

definition extname :: "string \<Rightarrow> string" where
  "extname path =
     (let base = rev (takeWhile (\<lambda>c. c \<noteq> CHR ''/'') (rev path));
          ext = rev (takeWhile (\<lambda>c. c \<noteq> CHR ''.'') (rev base));
          stem = take (length base - length ext - 1) base
      in if CHR ''.'' \<notin> set base \<or> stem = [] \<or> base = ''..'' then [] else CHR ''.'' # ext)"

text \<open>The file part of a multipart request as multer sees it, and the text fields of
  \<^verbatim>\<open>req.body\<close>. A multipart text field is a string or absent. The \<^verbatim>\<open>tags\<close> field is
  given by what \<^verbatim>\<open>JSON.parse\<close> makes of it: absent or empty, a JSON array of strings, or
  text on which the parser throws.\<close>

record upload_file =
  fieldname :: string
  originalname :: string
  mimetype :: string
  bytes :: nat

datatype tags_field = NoTags | TagsJson "string list" | TagsMalformed

record upload_body =
  body_title :: "string option"
  body_description :: "string option"
  body_tags :: tags_field
  body_isPublic :: "string option"

text \<open>\<^verbatim>\<open>req.file\<close> once the disk storage has written it.\<close>

record stored_file =
  sf_filename :: string
  sf_path :: string
  sf_originalname :: string
  sf_mimetype :: string
  sf_size :: nat

datatype upload_error = MulterError string | PlainError string

text \<open>\<^verbatim>\<open>parseInt(process.env.MAX_FILE_SIZE) || 50 * 1024 * 1024\<close>; the argument is the
  result of \<^verbatim>\<open>parseInt\<close>, \<open>None\<close> for NaN (also when the variable is unset).\<close>

definition maxFileSize :: "int option \<Rightarrow> int" where
  "maxFileSize env =
     (case env of None \<Rightarrow> 50 * 1024 * 1024 | Some n \<Rightarrow> if n = 0 then 50 * 1024 * 1024 else n)"

definition fileFilter :: "upload_file \<Rightarrow> upload_error option" where
  "fileFilter f =
     (if mimetype f = ''application/pdf'' then None
      else Some (PlainError ''Only PDF files are allowed!''))"

text \<open>\<^verbatim>\<open>upload.single('pdf')\<close> on a request with at most one file part: the field name is
  checked first, then the file filter, then the size limit while the bytes are written.
  multer 1.4.5 hands \<^verbatim>\<open>limits.fileSize\<close> to busboy, which copies from each chunk at most
  the bytes that remain up to the limit and reports the limit as soon as the bytes read
  equal it. So under a limit that is not negative a file with at least that many bytes is
  refused with \<^verbatim>\<open>LIMIT_FILE_SIZE\<close> (and multer removes what it wrote); under a negative
  limit nothing is copied, the limit is never reported, and the file is stored empty.\<close>

definition upload_single :: "int option \<Rightarrow> string \<Rightarrow> upload_file option \<Rightarrow> upload_error + stored_file option" where
  "upload_single env uniqueId file =
     (case file of
        None \<Rightarrow> Inr None
      | Some f \<Rightarrow>
          if fieldname f \<noteq> ''pdf'' then Inl (MulterError ''LIMIT_UNEXPECTED_FILE'')
          else (case fileFilter f of
                  Some e \<Rightarrow> Inl e
                | None \<Rightarrow>
                    if 0 \<le> maxFileSize env \<and> maxFileSize env \<le> int (bytes f)
                    then Inl (MulterError ''LIMIT_FILE_SIZE'')
                    else
                      let name = uniqueId @ extname (originalname f)
                      in Inr (Some \<lparr>sf_filename = name, sf_path = ''uploads/pdfs/'' @ name,
                                    sf_originalname = originalname f, sf_mimetype = mimetype f,
                                    sf_size = (if maxFileSize env < 0 then 0 else bytes f)\<rparr>)))"

definition handleMulterError :: "upload_error \<Rightarrow> response" where
  "handleMulterError err =
     (case err of
        MulterError code \<Rightarrow>
          if code = ''LIMIT_FILE_SIZE''
          then Reply 400 (Msg ''File size too large. Maximum size allowed is 50MB.'')
          else if code = ''LIMIT_UNEXPECTED_FILE''
          then Reply 400 (Msg ''Too many files. Only one PDF file is allowed.'')
          else NextError code
      | PlainError m \<Rightarrow>
          if m = ''Only PDF files are allowed!''
          then Reply 400 (Msg ''Invalid file type. Only PDF files are allowed.'')
          else NextError m)"

text \<open>Mongoose's cast of a value to the schema type Boolean, on strings: \<^verbatim>\<open>'true'\<close>,
  \<^verbatim>\<open>'1'\<close>, \<^verbatim>\<open>'yes'\<close> become true, \<^verbatim>\<open>'false'\<close>, \<^verbatim>\<open>'0'\<close>, \<^verbatim>\<open>'no'\<close> become false, any
  other string is a cast error.\<close>

definition castBoolean :: "string \<Rightarrow> bool option" where
  "castBoolean t =
     (if t \<in> set [''true'', ''1'', ''yes''] then Some True
      else if t \<in> set [''false'', ''0'', ''no''] then Some False
      else None)"

text \<open>The default the PDF schema declares for \<^verbatim>\<open>isPublic\<close>.\<close>

definition pdfSchema_isPublic_default :: bool where
  "pdfSchema_isPublic_default = False"

text \<open>The validators the PDF schema declares, on a document whose setters (\<^verbatim>\<open>trim\<close>) have
  run. Lengths count characters of the model's strings.\<close>

definition validPdf :: "pdf \<Rightarrow> bool" where
  "validPdf p =
     (title p \<noteq> [] \<and> length (title p) \<le> 100
      \<and> length (description p) \<le> 500
      \<and> filename p \<noteq> [] \<and> originalName p \<noteq> [] \<and> filePath p \<noteq> []
      \<and> mimeType p = ''application/pdf''
      \<and> list_all (\<lambda>t. length t \<le> 30) (pdf_tags p)
      \<and> status p \<in> set [''processing'', ''ready'', ''error''])"

text \<open>\<^verbatim>\<open>PDF.create\<close> with the fields the upload handler passes; \<open>None\<close> is a validation or
  cast error.\<close>

definition PDF_create :: "time \<Rightarrow> oid \<Rightarrow> string \<Rightarrow> string \<Rightarrow> stored_file \<Rightarrow> oid \<Rightarrow> string \<Rightarrow> string list \<Rightarrow> pdf option" where
  "PDF_create now newId ttl descr f owner pub tgs =
     (case castBoolean pub of
        None \<Rightarrow> None
      | Some b \<Rightarrow>
          let p = \<lparr>pdf_id = newId, title = trim ttl, description = trim descr,
                   filename = sf_filename f, originalName = sf_originalname f,
                   filePath = sf_path f, fileSize = sf_size f, mimeType = sf_mimetype f,
                   pageCount = None, pdf_user = owner, isPublic = b,
                   pdf_tags = map trim tgs, status = ''ready'', accessCount = 0,
                   lastAccessed = now, pdf_createdAt = now, pdf_updatedAt = now\<rparr>
          in if validPdf p then Some p else None)"

text \<open>The handler of \<^verbatim>\<open>POST /api/pdfs/upload\<close>, after multer has stored the file (or found
  none).\<close>

definition upload_handler :: "time \<Rightarrow> oid \<Rightarrow> upload_body \<Rightarrow> stored_file option \<Rightarrow> user \<Rightarrow> db \<Rightarrow> response \<times> db" where
  "upload_handler now newId b file u s =
     (case file of
        None \<Rightarrow> (Reply 400 (Msg ''Please upload a PDF file''), s)
      | Some f \<Rightarrow>
          let parsedTags = (case body_tags b of TagsJson ts \<Rightarrow> ts | _ \<Rightarrow> []);
              ttl = (case body_title b of None \<Rightarrow> sf_originalname f
                     | Some t \<Rightarrow> if t = [] then sf_originalname f else t);
              descr = (case body_description b of None \<Rightarrow> [] | Some d \<Rightarrow> d);
              pub = (case body_isPublic b of None \<Rightarrow> ''true''
                     | Some t \<Rightarrow> if t = [] then ''true'' else t)
          in (case PDF_create now newId ttl descr f (uid u) pub parsedTags of
                Some p \<Rightarrow> (Reply 201 (PdfSummary p), s\<lparr>pdfs := pdfs s @ [p]\<rparr>)
              | None \<Rightarrow>
                  (NextError ''ValidationError'', s\<lparr>files := removeAll (sf_path f) (files s)\<rparr>)))"

text \<open>The route: \<^verbatim>\<open>protect\<close>, \<^verbatim>\<open>upload.single('pdf')\<close>, \<^verbatim>\<open>handleMulterError\<close>, the
  handler.\<close>

definition post_upload :: "time \<Rightarrow> oid \<Rightarrow> int option \<Rightarrow> string \<Rightarrow> user option \<Rightarrow> upload_file option \<Rightarrow> upload_body \<Rightarrow> db \<Rightarrow> response \<times> db" where
  "post_upload now newId env uniqueId v file b s =
     protect v
       (\<lambda>u t. case upload_single env uniqueId file of
                 Inl err \<Rightarrow> (handleMulterError err, t)
               | Inr None \<Rightarrow> upload_handler now newId b None u t
               | Inr (Some f) \<Rightarrow>
                   upload_handler now newId b (Some f) u (t\<lparr>files := sf_path f # files t\<rparr>))
       s"

section \<open>Annotations\<close>

text \<open>\<^verbatim>\<open>Annotation.create\<close> with the fields the handler passes: the content is cast to the
  schema, the declared defaults fill what it leaves unset (the style keys; an array path
  starts empty), the validators run, and the document is saved without its empty objects.
  \<open>None\<close> is a validation error.\<close>

definition Annotation_create :: "time \<Rightarrow> oid \<Rightarrow> oid \<Rightarrow> oid \<Rightarrow> rat \<Rightarrow> string \<Rightarrow> obj \<Rightarrow> bool \<Rightarrow> string list \<Rightarrow> annotation option" where
  "Annotation_create now newId pdfId userId pg ty c priv tgs =
     (let a = \<lparr>ann_id = newId, ann_pdf = pdfId, ann_user = userId, page = pg, ann_type = ty,
               content = minimize (hydrateContent (castContent c)), isPrivate = priv,
               replies = [], isResolved = False, ann_tags = map trim tgs, ann_createdAt = now,
               ann_updatedAt = now\<rparr>
      in if 1 \<le> pg \<and> ty \<in> set annotationTypes \<and> hasCoordinates (content a)
            \<and> validContent (content a) \<and> validTags (ann_tags a)
         then Some a else None)"

subsection \<open>Routes\<close>

text \<open>The three annotation routes that check read access to the document compute
  \<^verbatim>\<open>pdf.user.toString() === req.user.id || pdf.isPublic\<close>.\<close>

definition hasAccessAuth :: "pdf \<Rightarrow> user \<Rightarrow> bool" where
  "hasAccessAuth p u = (pdf_user p = uid u \<or> isPublic p)"

text \<open>The JSON body of \<^verbatim>\<open>POST /api/annotations\<close>.\<close>

record annotation_body =
  req_pdfId :: "oid option"
  req_page :: "rat option"
  req_type :: "string option"
  req_content :: "obj option"
  req_isPrivate :: "bool option"
  req_tags :: "string list option"

definition post_annotation_handler :: "time \<Rightarrow> oid \<Rightarrow> annotation_body \<Rightarrow> user \<Rightarrow> db \<Rightarrow> response \<times> db" where
  "post_annotation_handler now newId b u s =
     (case (req_pdfId b, req_page b, req_type b, req_content b) of
        (Some pdfId, Some pg, Some ty, Some c) \<Rightarrow>
          if pdfId = [] \<or> pg = 0 \<or> ty = []
          then (Reply 400 (Msg ''Please provide pdfId, page, type, and content''), s)
          else
            (case findPdf pdfId s of
               None \<Rightarrow> (Reply 404 (Msg ''PDF not found''), s)
             | Some p \<Rightarrow>
                 if \<not> hasAccessAuth p u
                 then (Reply 403 (Msg ''Not authorized to annotate this PDF''), s)
                 else
                   (case Annotation_create now newId pdfId (uid u) pg ty c
                           (case req_isPrivate b of None \<Rightarrow> False | Some x \<Rightarrow> x)
                           (case req_tags b of None \<Rightarrow> [] | Some ts \<Rightarrow> ts) of
                      None \<Rightarrow> (NextError ''ValidationError'', s)
                    | Some a \<Rightarrow>
                        let s' = s\<lparr>annotations := annotations s @ [a]\<rparr>
                        in (Reply 201 (AnnotationBody (map_option toJSON (findAnnotation (ann_id a) s'))),
                            s')))
      | _ \<Rightarrow> (Reply 400 (Msg ''Please provide pdfId, page, type, and content''), s))"

definition post_annotation :: "time \<Rightarrow> oid \<Rightarrow> user option \<Rightarrow> annotation_body \<Rightarrow> db \<Rightarrow> response \<times> db" where
  "post_annotation now newId v b s = protect v (post_annotation_handler now newId b) s"

text \<open>The query string of \<^verbatim>\<open>GET /api/annotations/pdf/:pdfId\<close>. The page is given by what
  \<^verbatim>\<open>parseInt\<close> makes of it (\<open>None\<close> when the parameter is absent or empty).\<close>

datatype parsed_int = NaN | Parsed int

record annotation_query =
  q_page :: "parsed_int option"
  q_type :: "string option"
  q_isResolved :: "string option"

text \<open>The conditions \<^verbatim>\<open>page\<close>, \<^verbatim>\<open>type\<close> and \<^verbatim>\<open>isResolved\<close> of the query object.\<close>

definition matches :: "int option \<Rightarrow> string option \<Rightarrow> string option \<Rightarrow> annotation \<Rightarrow> bool" where
  "matches pg ty res a =
     ((case pg of None \<Rightarrow> True | Some n \<Rightarrow> page a = of_int n)
      \<and> (case ty of None \<Rightarrow> True | Some t \<Rightarrow> t = [] \<or> ann_type a = t)
      \<and> (case res of None \<Rightarrow> True | Some r \<Rightarrow> isResolved a = (r = ''true'')))"

text \<open>\<^verbatim>\<open>.sort({ createdAt: -1 })\<close>\<close>

definition newestFirst :: "annotation list \<Rightarrow> annotation list" where
  "newestFirst xs = rev (sort_key ann_createdAt xs)"

text \<open>\<^verbatim>\<open>Annotation.find(query)\<close> with the query object the handler builds. A page that
  \<^verbatim>\<open>parseInt\<close> made NaN cannot be cast to the schema's Number: the query throws a
  CastError.\<close>

definition Annotation_find :: "oid \<Rightarrow> bool \<Rightarrow> annotation_query \<Rightarrow> db \<Rightarrow> string + annotation list" where
  "Annotation_find pdfId onlyPublic q s =
     (let run = (\<lambda>pg. Inr (newestFirst
                   (filter (\<lambda>a. ann_pdf a = pdfId
                               \<and> (if onlyPublic then isPrivate a = False else True)
                               \<and> matches pg (q_type q) (q_isResolved q) a)
                      (annotations s))))
      in case q_page q of
           None \<Rightarrow> run None
         | Some NaN \<Rightarrow> Inl ''CastError''
         | Some (Parsed n) \<Rightarrow> run (Some n))"

definition get_annotations_handler :: "oid \<Rightarrow> annotation_query \<Rightarrow> user \<Rightarrow> db \<Rightarrow> response \<times> db" where
  "get_annotations_handler pdfId q u s =
     (case findPdf pdfId s of
        None \<Rightarrow> (Reply 404 (Msg ''PDF not found''), s)
      | Some p \<Rightarrow>
          if \<not> hasAccessAuth p u
          then (Reply 403 (Msg ''Not authorized to view annotations for this PDF''), s)
          else
            (case Annotation_find pdfId (pdf_user p \<noteq> uid u) q s of
               Inl e \<Rightarrow> (NextError e, s)
             | Inr found \<Rightarrow> (Reply 200 (Annotations (map toJSON found)), s)))"

definition get_annotations :: "user option \<Rightarrow> oid \<Rightarrow> annotation_query \<Rightarrow> db \<Rightarrow> response \<times> db" where
  "get_annotations v pdfId q s = protect v (get_annotations_handler pdfId q) s"

text \<open>The JSON body of \<^verbatim>\<open>PUT /api/annotations/:id\<close>: a content object or none, the two
  flags when they are booleans, the tags when an array is sent.\<close>

record annotation_patch =
  patch_content :: "obj option"
  patch_isPrivate :: "bool option"
  patch_isResolved :: "bool option"
  patch_tags :: "string list option"

text \<open>The handler spreads what the loaded document presents under \<^verbatim>\<open>content\<close> and the
  patch; \<^verbatim>\<open>findByIdAndUpdate\<close> casts the result to the schema, runs the validators on
  it, stores it as cast (no defaults, empty objects kept) and returns the updated
  document. The model also refuses an update whose content would lack the required
  coordinates.\<close>

definition put_annotation_handler :: "time \<Rightarrow> oid \<Rightarrow> annotation_patch \<Rightarrow> user \<Rightarrow> db \<Rightarrow> response \<times> db" where
  "put_annotation_handler now i b u s =
     (case findAnnotation i s of
        None \<Rightarrow> (Reply 404 (Msg ''Annotation not found''), s)
      | Some a \<Rightarrow>
          if ann_user a \<noteq> uid u
          then (Reply 403 (Msg ''Not authorized to update this annotation''), s)
          else
            let a' = a\<lparr>content := (case patch_content b of None \<Rightarrow> content a
                                    | Some c \<Rightarrow> castContent (spread2 (hydrateContent (content a)) c)),
                       isPrivate := (case patch_isPrivate b of None \<Rightarrow> isPrivate a | Some x \<Rightarrow> x),
                       isResolved := (case patch_isResolved b of None \<Rightarrow> isResolved a | Some x \<Rightarrow> x),
                       ann_tags := (case patch_tags b of None \<Rightarrow> ann_tags a | Some ts \<Rightarrow> map trim ts),
                       ann_updatedAt := now\<rparr>
            in if (patch_content b \<noteq> None
                     \<and> \<not> (validContent (content a') \<and> hasCoordinates (content a')))
                  \<or> (patch_tags b \<noteq> None \<and> \<not> validTags (ann_tags a'))
               then (NextError ''ValidationError'', s)
               else (Reply 200 (AnnotationBody (Some (toJSON a'))), saveAnnotation a' s))"

definition put_annotation :: "time \<Rightarrow> user option \<Rightarrow> oid \<Rightarrow> annotation_patch \<Rightarrow> db \<Rightarrow> response \<times> db" where
  "put_annotation now v i b s = protect v (put_annotation_handler now i b) s"

definition delete_annotation_handler :: "oid \<Rightarrow> user \<Rightarrow> db \<Rightarrow> response \<times> db" where
  "delete_annotation_handler i u s =
     (case findAnnotation i s of
        None \<Rightarrow> (Reply 404 (Msg ''Annotation not found''), s)
      | Some a \<Rightarrow>
          if ann_user a \<noteq> uid u \<and> role u \<noteq> ''admin''
          then (Reply 403 (Msg ''Not authorized to delete this annotation''), s)
          else (Reply 200 (Msg ''Annotation deleted successfully''),
                s\<lparr>annotations := delete_first (\<lambda>x. ann_id x = i) (annotations s)\<rparr>))"

definition delete_annotation :: "user option \<Rightarrow> oid \<Rightarrow> db \<Rightarrow> response \<times> db" where
  "delete_annotation v i s = protect v (delete_annotation_handler i) s"

text \<open>\<^verbatim>\<open>POST /api/annotations/:id/replies\<close>. A missing document makes \<^verbatim>\<open>pdf.user\<close>
  throw, which the handler passes to \<^verbatim>\<open>next\<close>. The save validates the reply's length.\<close>

definition post_reply_handler :: "time \<Rightarrow> oid \<Rightarrow> string option \<Rightarrow> user \<Rightarrow> db \<Rightarrow> response \<times> db" where
  "post_reply_handler now i txt u s =
     (case (case txt of None \<Rightarrow> None | Some t \<Rightarrow> if length (trim t) = 0 then None else Some t) of
        None \<Rightarrow> (Reply 400 (Msg ''Reply text is required''), s)
      | Some t \<Rightarrow>
          (case findAnnotation i s of
             None \<Rightarrow> (Reply 404 (Msg ''Annotation not found''), s)
           | Some a \<Rightarrow>
               (case findPdf (ann_pdf a) s of
                  None \<Rightarrow> (NextError ''TypeError'', s)
                | Some p \<Rightarrow>
                    if \<not> hasAccessAuth p u \<or> isPrivate a
                    then (Reply 403 (Msg ''Not authorized to reply to this annotation''), s)
                    else
                      let a' = a\<lparr>replies := replies a
                                   @ [\<lparr>reply_user = uid u, reply_text = trim t, reply_createdAt = now\<rparr>],
                                  ann_updatedAt := now\<rparr>
                      in if length (trim t) > 500 then (NextError ''ValidationError'', s)
                         else
                           let s' = saveAnnotation a' s
                           in (Reply 201 (AnnotationBody (map_option toJSON (findAnnotation (ann_id a) s'))),
                               s'))))"

definition post_reply :: "time \<Rightarrow> user option \<Rightarrow> oid \<Rightarrow> string option \<Rightarrow> db \<Rightarrow> response \<times> db" where
  "post_reply now v i txt s = protect v (post_reply_handler now i txt) s"

section \<open>A small store\<close>

text \<open>Three users, a private and a public document of Alice's, and two annotations on the
  public one: an open one by Bob and a private one by Alice that carries a reply.\<close>

definition alice :: user where
  "alice = \<lparr>uid = ''alice'', role = ''user''\<rparr>"

definition bob :: user where
  "bob = \<lparr>uid = ''bob'', role = ''user''\<rparr>"

definition adminUser :: user where
  "adminUser = \<lparr>uid = ''root'', role = ''admin''\<rparr>"

definition docPrivate :: pdf where
  "docPrivate =
     \<lparr>pdf_id = ''d1'', title = ''Draft'', description = [], filename = ''k1.pdf'',
      originalName = ''draft.pdf'', filePath = ''uploads/pdfs/k1.pdf'', fileSize = 1024,
      mimeType = ''application/pdf'', pageCount = None, pdf_user = ''alice'', isPublic = False,
      pdf_tags = [], status = ''ready'', accessCount = 0, lastAccessed = 1,
      pdf_createdAt = 1, pdf_updatedAt = 1\<rparr>"

definition docPublic :: pdf where
  "docPublic =
     \<lparr>pdf_id = ''d2'', title = ''Paper'', description = [], filename = ''k2.pdf'',
      originalName = ''paper.pdf'', filePath = ''uploads/pdfs/k2.pdf'', fileSize = 2048,
      mimeType = ''application/pdf'', pageCount = None, pdf_user = ''alice'', isPublic = True,
      pdf_tags = [], status = ''ready'', accessCount = 0, lastAccessed = 2,
      pdf_createdAt = 2, pdf_updatedAt = 2\<rparr>"

definition noteContent :: obj where
  "noteContent =
     [(''text'', JStr ''note''), (''coordinates'', JObj [(''x'', JNum 10), (''y'', JNum 20)])]"

text \<open>The note as a created annotation stores it.\<close>

definition noteStored :: obj where
  "noteStored = noteContent @ [(''points'', JArr []), (''style'', JObj styleDefaults)]"

definition annOpen :: annotation where
  "annOpen =
     \<lparr>ann_id = ''a1'', ann_pdf = ''d2'', ann_user = ''bob'', page = 1, ann_type = ''text'',
      content = noteStored, isPrivate = False,
      replies = [], isResolved = False, ann_tags = [], ann_createdAt = 3, ann_updatedAt = 3\<rparr>"

definition annSecret :: annotation where
  "annSecret =
     \<lparr>ann_id = ''a2'', ann_pdf = ''d2'', ann_user = ''alice'', page = 2,
      ann_type = ''highlight'',
      content = noteStored, isPrivate = True,
      replies = [\<lparr>reply_user = ''alice'', reply_text = ''mine'', reply_createdAt = 4\<rparr>],
      isResolved = False, ann_tags = [], ann_createdAt = 4, ann_updatedAt = 4\<rparr>"

definition store0 :: db where
  "store0 =
     \<lparr>pdfs = [docPrivate, docPublic], annotations = [annOpen, annSecret],
      files = [''uploads/pdfs/k1.pdf'', ''uploads/pdfs/k2.pdf'']\<rparr>"

text \<open>Requests used below: no query filter, a one-byte-too-large PDF, a small PDF, a form
  without fields, a patch of the text, a patch with a key the schema does not declare, a
  new annotation on the public document.\<close>

definition noFilter :: annotation_query where
  "noFilter = \<lparr>q_page = None, q_type = None, q_isResolved = None\<rparr>"

definition bigFile :: upload_file where
  "bigFile =
     \<lparr>fieldname = ''pdf'', originalname = ''big.pdf'', mimetype = ''application/pdf'',
      bytes = 50 * 1024 * 1024 + 1\<rparr>"

definition smallFile :: upload_file where
  "smallFile =
     \<lparr>fieldname = ''pdf'', originalname = ''small.pdf'', mimetype = ''application/pdf'',
      bytes = 10\<rparr>"

definition emptyForm :: upload_body where
  "emptyForm =
     \<lparr>body_title = None, body_description = None, body_tags = NoTags, body_isPublic = None\<rparr>"

definition textPatch :: annotation_patch where
  "textPatch =
     \<lparr>patch_content = Some [(''text'', JStr ''edited'')], patch_isPrivate = None,
      patch_isResolved = None, patch_tags = None\<rparr>"

definition fooPatch :: annotation_patch where
  "fooPatch =
     \<lparr>patch_content = Some [(''foo'', JNum 1)], patch_isPrivate = None,
      patch_isResolved = None, patch_tags = None\<rparr>"

definition noteRequest :: annotation_body where
  "noteRequest =
     \<lparr>req_pdfId = Some ''d2'', req_page = Some 1, req_type = Some ''text'',
      req_content = Some noteContent, req_isPrivate = None, req_tags = None\<rparr>"

text \<open>The content that the specification's round-trip property names: the input plus the
  style defaults color and opacity.\<close>

definition noteWithTwoDefaults :: obj where
  "noteWithTwoDefaults =
     noteContent @ [(''style'', JObj [(''color'', JStr ''#FFFF00''), (''opacity'', JNum (1 / 2))])]"

section \<open>Theorems\<close>

subsection \<open>Read access\<close>

lemma hasAccess_canView: "hasAccess p v = canView_spec p v"
  by (cases v) (auto simp: hasAccess_def canView_spec_def)

text \<open>
  C1. For every stored document and every viewer, each of the two read routes grants
  access (does not answer 403) if and only if the document is public or the viewer is
  authenticated with the owner's id; for an anonymous viewer that is: if and only if the
  document is public.
\<close>

theorem read_access_iff:
  assumes "findPdf i s = Some d"
  shows "(status_of (fst (get_pdf now v i s)) \<noteq> Some 403)
            = (isPublic d \<or> (\<exists>u. v = Some u \<and> uid u = pdf_user d))
       \<and> (status_of (fst (get_pdf_file v i s)) \<noteq> Some 403)
            = (isPublic d \<or> (\<exists>u. v = Some u \<and> uid u = pdf_user d))
       \<and> (status_of (fst (get_pdf now None i s)) \<noteq> Some 403) = isPublic d
       \<and> (status_of (fst (get_pdf_file None i s)) \<noteq> Some 403) = isPublic d"
proof -
  have a: "(status_of (fst (get_pdf now w i s)) \<noteq> Some 403) = canView_spec d w" for w
    using assms by (simp add: get_pdf_def hasAccess_canView Let_def)
  have b: "(status_of (fst (get_pdf_file w i s)) \<noteq> Some 403) = canView_spec d w" for w
    using assms by (simp add: get_pdf_file_def hasAccess_canView)
  show ?thesis by (simp add: a b canView_spec_def)
qed

theorem read_access_iff_witness:
  "findPdf ''d1'' store0 = Some docPrivate
   \<and> status_of (fst (get_pdf 7 (Some alice) ''d1'' store0)) \<noteq> Some 403
   \<and> status_of (fst (get_pdf_file (Some alice) ''d1'' store0)) \<noteq> Some 403
   \<and> status_of (fst (get_pdf 7 (Some bob) ''d1'' store0)) = Some 403
   \<and> status_of (fst (get_pdf 7 None ''d1'' store0)) = Some 403
   \<and> status_of (fst (get_pdf_file None ''d1'' store0)) = Some 403"
proof -
  have f: "findPdf ''d1'' store0 = Some docPrivate"
    by (simp add: findPdf_def store0_def docPrivate_def)
  have o: "\<not> isPublic docPrivate" "uid alice = pdf_user docPrivate" "uid bob \<noteq> pdf_user docPrivate"
    by (simp_all add: docPrivate_def alice_def bob_def)
  show ?thesis
    using f o read_access_iff [OF f, of 7 "Some alice"] read_access_iff [OF f, of 7 "Some bob"]
    by simp
qed

subsection \<open>The store\<close>

lemmas store_defs = store0_def docPrivate_def docPublic_def annOpen_def annSecret_def
  alice_def bob_def adminUser_def noteContent_def styleDefaults_def

lemma find_map_replace:
  "f p' = i \<Longrightarrow> find (\<lambda>q. f q = i) (map (\<lambda>q. if f q = i then p' else q) xs)
     = (case find (\<lambda>q. f q = i) xs of None \<Rightarrow> None | Some y \<Rightarrow> Some p')"
  by (induction xs) auto

lemma findPdf_id: "findPdf i s = Some p \<Longrightarrow> pdf_id p = i"
  by (auto simp: findPdf_def find_Some_iff)

lemma findPdf_savePdf:
  "findPdf i s = Some p \<Longrightarrow> pdf_id p' = i \<Longrightarrow> findPdf i (savePdf p' s) = Some p'"
  by (simp add: findPdf_def savePdf_def find_map_replace)

lemma findAnnotation_id: "findAnnotation i s = Some a \<Longrightarrow> ann_id a = i"
  by (auto simp: findAnnotation_def find_Some_iff)

lemma findAnnotation_saveAnnotation:
  "findAnnotation i s = Some a \<Longrightarrow> ann_id a' = i \<Longrightarrow> findAnnotation i (saveAnnotation a' s) = Some a'"
  by (simp add: findAnnotation_def saveAnnotation_def find_map_replace)

subsection \<open>Deleting a document\<close>

lemma upto_cases: "k = 0 \<or> k = 1 \<or> k = 2 \<or> 3 \<le> (k::nat)" by arith

lemma delete_pdf_upto_annotations:
  "1 \<le> k \<Longrightarrow> annotationsOf (pdf_id p) (delete_pdf_upto k p s) = []"
  using upto_cases [of k]
  by (auto simp: delete_pdf_upto_def delete_pdf_effects_def run_effects_def annotationsOf_def
      deleteMany_annotations_def unlink_if_exists_def findByIdAndDelete_pdf_def filter_empty_conv
      split: if_splits)

lemma delete_pdf_upto_pdf:
  "k < 3 \<Longrightarrow> findPdf i (delete_pdf_upto k p s) = findPdf i s"
  using upto_cases [of k]
  by (auto simp: delete_pdf_upto_def delete_pdf_effects_def run_effects_def findPdf_def
      deleteMany_annotations_def unlink_if_exists_def)

text \<open>
  C2. A successful document delete (status 200) leaves no annotation and no reply under
  the document's id. The handler's effects run in the order annotations, file, document
  record: once the first effect has run no annotation references the id, and the document
  record is still stored until the third, so a handler that stops between two effects
  leaves no annotation pointing at a missing document.
\<close>

theorem delete_cascade:
  assumes "status_of (fst (delete_pdf v i s)) = Some 200"
  shows "annotationsOf i (snd (delete_pdf v i s)) = []
       \<and> repliesOf i (snd (delete_pdf v i s)) = []
       \<and> (\<exists>p. findPdf i s = Some p
              \<and> snd (delete_pdf v i s) = delete_pdf_upto 3 p s
              \<and> (\<forall>k. 1 \<le> k \<longrightarrow> annotationsOf i (delete_pdf_upto k p s) = [])
              \<and> (\<forall>k. k < 3 \<longrightarrow> findPdf i (delete_pdf_upto k p s) = Some p))"
proof -
  from assms obtain u where v: "v = Some u"
    by (cases v) (auto simp: delete_pdf_def protect_def)
  from assms v obtain p where p: "findPdf i s = Some p"
    by (cases "findPdf i s") (auto simp: delete_pdf_def protect_def delete_pdf_handler_def)
  have i: "pdf_id p = i" using p by (rule findPdf_id)
  from assms v p have s': "snd (delete_pdf v i s) = delete_pdf_upto 3 p s"
    by (auto simp: delete_pdf_def protect_def delete_pdf_handler_def delete_pdf_upto_def
        delete_pdf_effects_def split: if_splits)
  have a: "annotationsOf i (delete_pdf_upto k p s) = []" if "1 \<le> k" for k
    using delete_pdf_upto_annotations [OF that, of p s] i by simp
  have b: "findPdf i (delete_pdf_upto k p s) = Some p" if "k < 3" for k
    using delete_pdf_upto_pdf [OF that, of i p s] p by simp
  have r: "repliesOf i (snd (delete_pdf v i s)) = []"
    by (simp add: repliesOf_def s' a)
  show ?thesis using p s' a b r by auto
qed


theorem delete_cascade_witness:
  "status_of (fst (delete_pdf (Some alice) ''d2'' store0)) = Some 200
   \<and> length (annotationsOf ''d2'' store0) = 2
   \<and> length (repliesOf ''d2'' store0) = 1
   \<and> annotationsOf ''d2'' (snd (delete_pdf (Some alice) ''d2'' store0)) = []
   \<and> repliesOf ''d2'' (snd (delete_pdf (Some alice) ''d2'' store0)) = []"
proof -
  have h: "status_of (fst (delete_pdf (Some alice) ''d2'' store0)) = Some 200"
    by (simp add: delete_pdf_def protect_def delete_pdf_handler_def findPdf_def store_defs)
  have n: "length (annotationsOf ''d2'' store0) = 2 \<and> length (repliesOf ''d2'' store0) = 1"
    by (simp add: repliesOf_def annotationsOf_def store_defs)
  show ?thesis using h n delete_cascade [OF h] by simp
qed

subsection \<open>Oversized uploads\<close>

text \<open>
  C3, as stated, fails: a PDF of 50 MiB + 1 bytes uploaded by an authenticated user is
  answered with status 400, not 413.
\<close>

theorem upload_too_large_counterexample:
  "int (bytes bigFile) > maxFileSize None
   \<and> status_of (fst (post_upload 9 ''d3'' None ''k3'' (Some alice) (Some bigFile) emptyForm store0)) = Some 400
   \<and> status_of (fst (post_upload 9 ''d3'' None ''k3'' (Some alice) (Some bigFile) emptyForm store0)) \<noteq> Some 413"
  by (simp add: post_upload_def protect_def upload_single_def fileFilter_def maxFileSize_def
      handleMulterError_def bigFile_def)

text \<open>
  C3, as amended. For every authenticated upload whose file has more bytes than the
  configured maximum, that maximum being positive (it is 50 MiB when none is configured),
  the route answers with status 400 and the store is unchanged: no document is created
  and no file is left.
\<close>

theorem upload_too_large:
  assumes "0 < maxFileSize env" and "int (bytes f) > maxFileSize env"
  shows "status_of (fst (post_upload now newId env k (Some u) (Some f) b s)) = Some 400
       \<and> snd (post_upload now newId env k (Some u) (Some f) b s) = s
       \<and> maxFileSize None = 50 * 1024 * 1024"
  using assms
  by (simp add: post_upload_def protect_def upload_single_def fileFilter_def
      handleMulterError_def maxFileSize_def)

theorem upload_too_large_witness:
  "0 < maxFileSize None \<and> int (bytes bigFile) > maxFileSize None
   \<and> status_of (fst (post_upload 9 ''d3'' None ''k3'' (Some alice) (Some bigFile) emptyForm store0)) = Some 400
   \<and> snd (post_upload 9 ''d3'' None ''k3'' (Some alice) (Some bigFile) emptyForm store0) = store0"
proof -
  have p: "0 < maxFileSize None"
    by (simp add: maxFileSize_def)
  have h: "int (bytes bigFile) > maxFileSize None"
    by (simp add: maxFileSize_def bigFile_def)
  show ?thesis
    using p h upload_too_large [OF p h, of 9 "''d3''" "''k3''" alice emptyForm store0] by simp
qed

text \<open>Under a negative configured maximum the same file is not refused: it is stored
  empty and the document is created.\<close>

lemma negative_limit_accepts:
  "status_of (fst (post_upload 9 ''d3'' (Some (- 5)) ''k3'' (Some alice) (Some bigFile) emptyForm store0))
     = Some 201"
proof -
  have x: "extname ''big.pdf'' = ''.pdf''"
    by (simp add: extname_def Let_def)
  have t: "trim ''big.pdf'' = ''big.pdf''" "trim [] = []"
    by (simp_all add: trim_def isSpace_def)
  have u: "upload_single (Some (- 5)) ''k3'' (Some bigFile)
      = Inr (Some \<lparr>sf_filename = ''k3.pdf'', sf_path = ''uploads/pdfs/k3.pdf'',
                   sf_originalname = ''big.pdf'', sf_mimetype = ''application/pdf'', sf_size = 0\<rparr>)"
    by (simp add: upload_single_def bigFile_def fileFilter_def maxFileSize_def x Let_def)
  show ?thesis
    by (simp add: post_upload_def protect_def u upload_handler_def emptyForm_def PDF_create_def
        castBoolean_def t validPdf_def Let_def)
qed

subsection \<open>Access counter\<close>

text \<open>
  C4, as stated, fails for the file route: an authorized, successful read of a public
  document's file leaves the access counter at 0 and the last-accessed time at 2.
\<close>

theorem file_read_counterexample:
  "status_of (fst (get_pdf_file None ''d2'' store0)) = Some 200
   \<and> map_option accessCount (findPdf ''d2'' store0) = Some 0
   \<and> map_option accessCount (findPdf ''d2'' (snd (get_pdf_file None ''d2'' store0))) = Some 0
   \<and> map_option lastAccessed (findPdf ''d2'' (snd (get_pdf_file None ''d2'' store0))) = Some 2"
  by (simp add: get_pdf_file_def findPdf_def hasAccess_def store_defs)

text \<open>
  C4, as amended. For a stored document, the detail route answers 200 exactly when the
  viewer has access, and then the stored document has its access counter incremented by
  one and its last-accessed time set to the current time; a detail read that does not
  answer 200 leaves the store unchanged, and so does every read through the file route.
\<close>

theorem detail_read_touches_access:
  assumes "findPdf i s = Some d"
  shows "(status_of (fst (get_pdf now v i s)) = Some 200 \<longrightarrow>
            findPdf i (snd (get_pdf now v i s))
              = Some (d\<lparr>accessCount := accessCount d + 1, lastAccessed := now, pdf_updatedAt := now\<rparr>))
       \<and> (status_of (fst (get_pdf now v i s)) = Some 200) = hasAccess d v
       \<and> (status_of (fst (get_pdf now v i s)) \<noteq> Some 200 \<longrightarrow> snd (get_pdf now v i s) = s)
       \<and> snd (get_pdf_file v i s) = s"
proof -
  have i: "pdf_id d = i" using assms by (rule findPdf_id)
  have a: "findPdf i (savePdf (d\<lparr>accessCount := accessCount d + 1, lastAccessed := now, pdf_updatedAt := now\<rparr>) s)
             = Some (d\<lparr>accessCount := accessCount d + 1, lastAccessed := now, pdf_updatedAt := now\<rparr>)"
    using assms i by (simp add: findPdf_savePdf)
  have b: "snd (get_pdf_file v i s) = s"
    using assms by (simp add: get_pdf_file_def)
  show ?thesis using assms a b by (simp add: get_pdf_def Let_def)
qed

theorem detail_read_touches_access_witness:
  "findPdf ''d2'' store0 = Some docPublic
   \<and> status_of (fst (get_pdf 7 None ''d2'' store0)) = Some 200
   \<and> map_option accessCount (findPdf ''d2'' (snd (get_pdf 7 None ''d2'' store0))) = Some 1
   \<and> map_option lastAccessed (findPdf ''d2'' (snd (get_pdf 7 None ''d2'' store0))) = Some 7
   \<and> status_of (fst (get_pdf 7 None ''d1'' store0)) = Some 403
   \<and> snd (get_pdf 7 None ''d1'' store0) = store0"
proof -
  have f: "findPdf ''d2'' store0 = Some docPublic"
    by (simp add: findPdf_def store0_def docPrivate_def docPublic_def)
  have g: "findPdf ''d1'' store0 = Some docPrivate"
    by (simp add: findPdf_def store0_def docPrivate_def docPublic_def)
  have h: "hasAccess docPublic None" "\<not> hasAccess docPrivate None"
    by (simp_all add: hasAccess_def docPublic_def docPrivate_def)
  have k: "status_of (fst (get_pdf 7 None ''d1'' store0)) = Some 403"
    using g h by (simp add: get_pdf_def)
  show ?thesis
    using f h k detail_read_touches_access [OF f, of 7 None]
      detail_read_touches_access [OF g, of 7 None]
    by (simp add: docPublic_def)
qed

subsection \<open>Listing annotations\<close>

lemma set_newestFirst: "set (newestFirst xs) = set xs"
  by (simp add: newestFirst_def)

lemma matches_none: "matches None None None a"
  by (simp add: matches_def)

lemma Annotation_find_set:
  assumes "q_page q \<noteq> Some NaN"
  shows "\<exists>xs. Annotation_find i onlyPublic q s = Inr xs
            \<and> set xs = {a \<in> set (annotationsOf i s).
                          (onlyPublic \<longrightarrow> \<not> isPrivate a)
                          \<and> matches (case q_page q of Some (Parsed n) \<Rightarrow> Some n | _ \<Rightarrow> None)
                                (q_type q) (q_isResolved q) a}"
proof (cases "q_page q")
  case None
  then show ?thesis
    by (auto simp: Annotation_find_def Let_def set_newestFirst annotationsOf_def)
next
  case (Some r)
  with assms obtain n where "r = Parsed n" by (cases r) auto
  with Some show ?thesis
    by (auto simp: Annotation_find_def Let_def set_newestFirst annotationsOf_def)
qed

lemma get_annotations_anonymous:
  "get_annotations None i q s = (Reply 401 (Msg ''Not authorized''), s)"
  by (simp add: get_annotations_def protect_def)

lemma get_annotations_NaN:
  assumes "findPdf i s = Some d" and "hasAccessAuth d u" and "q_page q = Some NaN"
  shows "get_annotations (Some u) i q s = (NextError ''CastError'', s)"
  using assms
  by (simp add: get_annotations_def protect_def get_annotations_handler_def Annotation_find_def)

text \<open>What the two listings show an authenticated viewer and, on the detail route, an
  anonymous one. Annotations are shown as \<open>toJSON\<close> presents them.\<close>

lemma listing_visibility:
  assumes "findPdf i s = Some d" and "q_page q \<noteq> Some NaN"
  shows "(uid u = pdf_user d \<longrightarrow>
            (\<exists>xs. fst (get_annotations (Some u) i q s) = Reply 200 (Annotations (map toJSON xs))
                 \<and> set xs = {a \<in> set (annotationsOf i s).
                      matches (case q_page q of Some (Parsed n) \<Rightarrow> Some n | _ \<Rightarrow> None)
                        (q_type q) (q_isResolved q) a}))
       \<and> (uid u \<noteq> pdf_user d \<and> isPublic d \<longrightarrow>
            (\<exists>xs. fst (get_annotations (Some u) i q s) = Reply 200 (Annotations (map toJSON xs))
                 \<and> set xs = {a \<in> set (annotationsOf i s). \<not> isPrivate a \<and>
                      matches (case q_page q of Some (Parsed n) \<Rightarrow> Some n | _ \<Rightarrow> None)
                        (q_type q) (q_isResolved q) a}))
       \<and> (uid u \<noteq> pdf_user d \<and> \<not> isPublic d \<longrightarrow>
            status_of (fst (get_annotations (Some u) i q s)) = Some 403)
       \<and> (uid u = pdf_user d \<longrightarrow>
            (\<exists>d'. fst (get_pdf now (Some u) i s)
                     = Reply 200 (PdfDetail d' (map toJSON (annotationsOf i s)))))
       \<and> (uid u \<noteq> pdf_user d \<and> isPublic d \<longrightarrow>
            (\<exists>d'. fst (get_pdf now (Some u) i s)
                     = Reply 200 (PdfDetail d' (map toJSON (filter (\<lambda>a. \<not> isPrivate a) (annotationsOf i s))))))
       \<and> (uid u \<noteq> pdf_user d \<and> \<not> isPublic d \<longrightarrow>
            status_of (fst (get_pdf now (Some u) i s)) = Some 403)
       \<and> (isPublic d \<longrightarrow>
            (\<exists>d'. fst (get_pdf now None i s)
                     = Reply 200 (PdfDetail d' (map toJSON (filter (\<lambda>a. \<not> isPrivate a) (annotationsOf i s))))))
       \<and> (\<not> isPublic d \<longrightarrow> status_of (fst (get_pdf now None i s)) = Some 403)"
proof -
  have l1: "uid u = pdf_user d \<Longrightarrow>
      \<exists>xs. fst (get_annotations (Some u) i q s) = Reply 200 (Annotations (map toJSON xs))
           \<and> set xs = {a \<in> set (annotationsOf i s).
                matches (case q_page q of Some (Parsed n) \<Rightarrow> Some n | _ \<Rightarrow> None)
                  (q_type q) (q_isResolved q) a}"
    using assms(1) Annotation_find_set [OF assms(2), of i False s]
    by (auto simp: get_annotations_def protect_def get_annotations_handler_def hasAccessAuth_def)
  have l2: "uid u \<noteq> pdf_user d \<Longrightarrow> isPublic d \<Longrightarrow>
      \<exists>xs. fst (get_annotations (Some u) i q s) = Reply 200 (Annotations (map toJSON xs))
           \<and> set xs = {a \<in> set (annotationsOf i s). \<not> isPrivate a \<and>
                matches (case q_page q of Some (Parsed n) \<Rightarrow> Some n | _ \<Rightarrow> None)
                  (q_type q) (q_isResolved q) a}"
    using assms(1) Annotation_find_set [OF assms(2), of i True s]
    by (auto simp: get_annotations_def protect_def get_annotations_handler_def hasAccessAuth_def)
  have l3: "uid u \<noteq> pdf_user d \<Longrightarrow> \<not> isPublic d \<Longrightarrow>
      status_of (fst (get_annotations (Some u) i q s)) = Some 403"
    using assms(1)
    by (simp add: get_annotations_def protect_def get_annotations_handler_def hasAccessAuth_def)
  have d1: "uid u = pdf_user d \<Longrightarrow>
      \<exists>d'. fst (get_pdf now (Some u) i s) = Reply 200 (PdfDetail d' (map toJSON (annotationsOf i s)))"
    using assms(1) by (simp add: get_pdf_def hasAccess_def Let_def)
  have d2: "uid u \<noteq> pdf_user d \<Longrightarrow> isPublic d \<Longrightarrow>
      \<exists>d'. fst (get_pdf now (Some u) i s)
             = Reply 200 (PdfDetail d' (map toJSON (filter (\<lambda>a. \<not> isPrivate a) (annotationsOf i s))))"
    using assms(1) by (auto simp: get_pdf_def hasAccess_def Let_def)
  have d3: "uid u \<noteq> pdf_user d \<Longrightarrow> \<not> isPublic d \<Longrightarrow>
      status_of (fst (get_pdf now (Some u) i s)) = Some 403"
    using assms(1) by (simp add: get_pdf_def hasAccess_def)
  have d4: "isPublic d \<Longrightarrow>
      \<exists>d'. fst (get_pdf now None i s)
             = Reply 200 (PdfDetail d' (map toJSON (filter (\<lambda>a. \<not> isPrivate a) (annotationsOf i s))))"
    using assms(1) by (simp add: get_pdf_def hasAccess_def Let_def)
  have d5: "\<not> isPublic d \<Longrightarrow> status_of (fst (get_pdf now None i s)) = Some 403"
    using assms(1) by (simp add: get_pdf_def hasAccess_def)
  show ?thesis using l1 l2 l3 d1 d2 d3 d4 d5 by blast
qed

lemma toJSON_store0: "toJSON annOpen = annOpen" "toJSON annSecret = annSecret"
  by (simp_all add: toJSON_def annOpen_def annSecret_def noteStored_def noteContent_def
      hydrateContent_def hydrateStyle_def minimize_def obj_get_def styleDefaults_def)

lemma listing_store0:
  "fst (get_annotations (Some alice) ''d2'' noFilter store0) = Reply 200 (Annotations [annSecret, annOpen])"
  "fst (get_annotations (Some bob) ''d2'' noFilter store0) = Reply 200 (Annotations [annOpen])"
proof -
  have f: "findPdf ''d2'' store0 = Some docPublic"
    by (simp add: findPdf_def store0_def docPrivate_def docPublic_def)
  have a: "annotations store0 = [annOpen, annSecret]"
    by (simp add: store0_def)
  have p: "ann_pdf annOpen = ''d2''" "ann_pdf annSecret = ''d2''" "\<not> isPrivate annOpen"
    "isPrivate annSecret" "ann_createdAt annOpen = 3" "ann_createdAt annSecret = 4"
    by (simp_all add: annOpen_def annSecret_def)
  have o: "hasAccessAuth docPublic alice" "hasAccessAuth docPublic bob"
    "pdf_user docPublic = uid alice" "pdf_user docPublic \<noteq> uid bob"
    by (simp_all add: hasAccessAuth_def docPublic_def alice_def bob_def)
  show "fst (get_annotations (Some alice) ''d2'' noFilter store0) = Reply 200 (Annotations [annSecret, annOpen])"
    using f a p o
    by (simp add: get_annotations_def protect_def get_annotations_handler_def Annotation_find_def
        Let_def noFilter_def matches_none newestFirst_def toJSON_store0)
  show "fst (get_annotations (Some bob) ''d2'' noFilter store0) = Reply 200 (Annotations [annOpen])"
    using f a p o
    by (simp add: get_annotations_def protect_def get_annotations_handler_def Annotation_find_def
        Let_def noFilter_def matches_none newestFirst_def toJSON_store0)
qed

text \<open>
  C5. The code at the claim's failing input: the public document \<open>d2\<close> has the open
  annotation \<open>a1\<close>, and an anonymous viewer who asks the listing route for the annotations
  of \<open>d2\<close> is answered 401 and no list, whereas the detail route shows the same viewer
  exactly the open annotation.
\<close>

theorem anonymous_listing_denied:
  "findPdf ''d2'' store0 = Some docPublic \<and> isPublic docPublic
   \<and> filter (\<lambda>a. \<not> isPrivate a) (annotationsOf ''d2'' store0) = [annOpen]
   \<and> get_annotations None ''d2'' noFilter store0 = (Reply 401 (Msg ''Not authorized''), store0)
   \<and> (\<exists>d'. fst (get_pdf 7 None ''d2'' store0) = Reply 200 (PdfDetail d' [annOpen]))"
proof -
  have f: "findPdf ''d2'' store0 = Some docPublic"
    by (simp add: findPdf_def store0_def docPrivate_def docPublic_def)
  have p: "isPublic docPublic"
    by (simp add: docPublic_def)
  have a: "filter (\<lambda>a. \<not> isPrivate a) (annotationsOf ''d2'' store0) = [annOpen]"
    by (simp add: annotationsOf_def store0_def annOpen_def annSecret_def)
  have l: "get_annotations None ''d2'' noFilter store0 = (Reply 401 (Msg ''Not authorized''), store0)"
    by (simp add: get_annotations_def protect_def)
  have d: "\<exists>d'. fst (get_pdf 7 None ''d2'' store0) = Reply 200 (PdfDetail d' [annOpen])"
    using f p a by (simp add: get_pdf_def hasAccess_def Let_def toJSON_store0)
  show ?thesis using f p a l d by simp
qed

subsection \<open>Updating content\<close>

lemma obj_get_obj_set: "obj_get k (obj_set k' v ob) = (if k = k' then Some v else obj_get k ob)"
  by (induction ob) (auto simp: obj_get_def)

lemma obj_get_fold_set:
  "obj_get k (fold (\<lambda>(k, v) ob. obj_set k v ob) xs acc)
     = (case map_of (rev xs) k of Some v \<Rightarrow> Some v | None \<Rightarrow> obj_get k acc)"
proof (induction xs arbitrary: acc)
  case Nil
  then show ?case by simp
next
  case (Cons x xs)
  obtain k0 v0 where x: "x = (k0, v0)" by (cases x)
  show ?case
    by (simp add: Cons.IH x obj_get_obj_set map_add_def split: option.splits)
qed

lemma map_of_rev_distinct: "distinct (map fst xs) \<Longrightarrow> map_of (rev xs) = map_of xs"
  by (rule iffD2 [OF map_of_inject_set]) (simp_all add: rev_map [symmetric])

lemma obj_get_spread2:
  assumes "distinct (map fst a)" "distinct (map fst b)"
  shows "obj_get k (spread2 a b) = (case obj_get k b of Some v \<Rightarrow> Some v | None \<Rightarrow> obj_get k a)"
proof -
  have "obj_get k (spread2 a b)
      = (case map_of (rev b) k of Some v \<Rightarrow> Some v
         | None \<Rightarrow> (case map_of (rev a) k of Some v \<Rightarrow> Some v | None \<Rightarrow> obj_get k []))"
    by (simp add: spread2_def obj_get_fold_set split: option.splits)
  then show ?thesis
    using assms by (simp add: map_of_rev_distinct obj_get_def split: option.splits)
qed

lemma distinct_hydrateContent: "distinct (map fst (hydrateContent c))"
  by (simp add: hydrateContent_def split: option.splits)

lemma obj_get_castContent:
  "obj_get k (castContent c)
     = (if k \<in> set contentKeys then map_option (castField k) (obj_get k c) else None)"
  by (induction c) (auto simp: castContent_def restrict_keys_def obj_get_def)

text \<open>Stored content that is as the schema casts it is presented with values that a
  further cast leaves alone.\<close>

lemma restrict_keys_hydrateStyle: "restrict_keys styleKeys (hydrateStyle st) = hydrateStyle st"
  by (simp add: restrict_keys_def hydrateStyle_def styleKeys_def styleDefaults_def)

lemma castContent_fixed:
  assumes "castContent c = c" and "obj_get k c = Some v"
  shows "castField k v = v"
proof -
  have m: "(k, v) \<in> set c"
    using assms(2) by (auto simp: obj_get_def dest: map_of_SomeD)
  have "length (restrict_keys contentKeys c) = length c"
    using arg_cong [OF assms(1), of length] by (simp add: castContent_def)
  then have r: "restrict_keys contentKeys c = c"
    unfolding restrict_keys_def
    by (metis filter_True length_filter_le filter_id_conv length_filter_less less_irrefl_nat)
  have "map (\<lambda>(k, v). (k, castField k v)) c = map id c"
    using assms(1) by (simp add: castContent_def r)
  then have "\<forall>x\<in>set c. (\<lambda>(k, v). (k, castField k v)) x = id x"
    by (simp only: map_eq_conv)
  with m show ?thesis by auto
qed

lemma castField_hydrated:
  assumes "castContent c = c" and "obj_get k (hydrateContent c) = Some v"
  shows "castField k v = v"
proof -
  have t: "castField ''text'' w = w" for w
    by (cases w) (simp_all add: castField_def)
  have e: "castField k' (JObj []) = JObj []" "castField k' (JArr []) = JArr []" for k'
    by (simp_all add: castField_def restrict_keys_def)
  have s: "castField ''style'' (JObj (hydrateStyle st)) = JObj (hydrateStyle st)" for st
    by (simp add: castField_def restrict_keys_hydrateStyle)
  have s0: "castField ''style'' (JObj styleDefaults) = JObj styleDefaults"
    by (simp add: castField_def restrict_keys_def styleKeys_def styleDefaults_def)
  have f: "obj_get k' c = Some w \<Longrightarrow> castField k' w = w" for k' w
    using assms(1) by (rule castContent_fixed)
  show ?thesis
    using assms(2) t e s s0 f
    by (auto simp: hydrateContent_def obj_get_def split: option.splits if_splits jsval.splits)
qed

text \<open>
  C6, as stated, fails: a patch whose content has the key \<^verbatim>\<open>foo\<close>, which the schema does
  not declare, is answered 200 by the author's update, and the stored content has no
  \<^verbatim>\<open>foo\<close>: that key of the patch did not take the patch's value.
\<close>

theorem undeclared_key_counterexample:
  "patch_content fooPatch = Some [(''foo'', JNum 1)]
   \<and> status_of (fst (put_annotation 9 (Some bob) ''a1'' fooPatch store0)) = Some 200
   \<and> (\<exists>a'. findAnnotation ''a1'' (snd (put_annotation 9 (Some bob) ''a1'' fooPatch store0)) = Some a'
          \<and> obj_get ''foo'' (content a') = None)"
proof -
  have f: "findAnnotation ''a1'' store0 = Some annOpen"
    by (simp add: findAnnotation_def store0_def annOpen_def)
  have h: "hydrateContent (content annOpen)
      = [(''text'', JStr ''note''), (''coordinates'', JObj [(''x'', JNum 10), (''y'', JNum 20)]),
         (''bounds'', JObj []), (''points'', JArr []), (''style'', JObj styleDefaults)]"
    by (simp add: annOpen_def noteStored_def noteContent_def hydrateContent_def hydrateStyle_def
        obj_get_def styleDefaults_def)
  have c: "castContent (spread2 (hydrateContent (content annOpen)) [(''foo'', JNum 1)])
      = [(''text'', JStr ''note''), (''coordinates'', JObj [(''x'', JNum 10), (''y'', JNum 20)]),
         (''bounds'', JObj []), (''points'', JArr []), (''style'', JObj styleDefaults)]"
    by (simp add: h spread2_def castContent_def restrict_keys_def contentKeys_def castField_def
        coordinateKeys_def boundsKeys_def styleKeys_def styleDefaults_def castPoint_def)
  have v: "validContent [(''text'', JStr ''note''), (''coordinates'', JObj [(''x'', JNum 10), (''y'', JNum 20)]),
         (''bounds'', JObj []), (''points'', JArr []), (''style'', JObj styleDefaults)]"
    by (simp add: validContent_def obj_get_def numbersObject_def isNumber_def validStyle_def
        styleDefaults_def validColor_def isHex_def numberIn_def)
  have w: "hasCoordinates [(''text'', JStr ''note''), (''coordinates'', JObj [(''x'', JNum 10), (''y'', JNum 20)]),
         (''bounds'', JObj []), (''points'', JArr []), (''style'', JObj styleDefaults)]"
    by (simp add: hasCoordinates_def obj_get_def)
  have i: "ann_id annOpen = ''a1''" "ann_user annOpen = uid bob"
    by (simp_all add: annOpen_def bob_def)
  have r: "put_annotation 9 (Some bob) ''a1'' fooPatch store0
      = (Reply 200 (AnnotationBody (Some (toJSON (annOpen\<lparr>content :=
              [(''text'', JStr ''note''), (''coordinates'', JObj [(''x'', JNum 10), (''y'', JNum 20)]),
               (''bounds'', JObj []), (''points'', JArr []), (''style'', JObj styleDefaults)],
              ann_updatedAt := 9\<rparr>)))),
         saveAnnotation (annOpen\<lparr>content :=
              [(''text'', JStr ''note''), (''coordinates'', JObj [(''x'', JNum 10), (''y'', JNum 20)]),
               (''bounds'', JObj []), (''points'', JArr []), (''style'', JObj styleDefaults)],
              ann_updatedAt := 9\<rparr>) store0)"
    using f i v w by (simp add: put_annotation_def protect_def put_annotation_handler_def Let_def
        fooPatch_def c)
  have g: "findAnnotation ''a1'' (saveAnnotation (annOpen\<lparr>content :=
              [(''text'', JStr ''note''), (''coordinates'', JObj [(''x'', JNum 10), (''y'', JNum 20)]),
               (''bounds'', JObj []), (''points'', JArr []), (''style'', JObj styleDefaults)],
              ann_updatedAt := 9\<rparr>) store0)
        = Some (annOpen\<lparr>content :=
              [(''text'', JStr ''note''), (''coordinates'', JObj [(''x'', JNum 10), (''y'', JNum 20)]),
               (''bounds'', JObj []), (''points'', JArr []), (''style'', JObj styleDefaults)],
              ann_updatedAt := 9\<rparr>)"
    using f i by (simp add: findAnnotation_saveAnnotation)
  have pc: "patch_content fooPatch = Some [(''foo'', JNum 1)]"
    by (simp add: fooPatch_def)
  show ?thesis
    by (simp add: pc r g obj_get_def)
qed

text \<open>
  C6, as amended. For every successful update (status 200) whose patch carries a content
  object, the stored content is the spread of the content that the loaded document
  presents and the patch, cast to the schema. Looked up at a top-level key that the schema
  declares, it gives the patch's value (as cast) when the patch has the key, and otherwise
  the value that the loaded document presented (the very value if the stored content was
  as the schema casts it); at a key that the schema does not declare it gives nothing. The
  response carries the updated annotation as \<open>toJSON\<close> presents it. Patch objects have
  pairwise distinct keys.
\<close>

theorem update_merges_content:
  assumes "findAnnotation i s = Some a" and "patch_content b = Some c"
    and "distinct (map fst c)"
    and "status_of (fst (put_annotation now (Some u) i b s)) = Some 200"
  shows "\<exists>a'. findAnnotation i (snd (put_annotation now (Some u) i b s)) = Some a'
            \<and> fst (put_annotation now (Some u) i b s) = Reply 200 (AnnotationBody (Some (toJSON a')))
            \<and> content a' = castContent (spread2 (hydrateContent (content a)) c)
            \<and> (\<forall>k v. k \<in> set contentKeys \<and> obj_get k c = Some v \<longrightarrow>
                   obj_get k (content a') = Some (castField k v))
            \<and> (\<forall>k. k \<in> set contentKeys \<and> obj_get k c = None \<longrightarrow>
                   obj_get k (content a')
                     = map_option (castField k) (obj_get k (hydrateContent (content a))))
            \<and> (castContent (content a) = content a \<longrightarrow>
                 (\<forall>k. k \<in> set contentKeys \<and> obj_get k c = None \<longrightarrow>
                   obj_get k (content a') = obj_get k (hydrateContent (content a))))
            \<and> (\<forall>k. k \<notin> set contentKeys \<longrightarrow> obj_get k (content a') = None)"
proof -
  define a' where "a' = a\<lparr>content := castContent (spread2 (hydrateContent (content a)) c),
      isPrivate := (case patch_isPrivate b of None \<Rightarrow> isPrivate a | Some x \<Rightarrow> x),
      isResolved := (case patch_isResolved b of None \<Rightarrow> isResolved a | Some x \<Rightarrow> x),
      ann_tags := (case patch_tags b of None \<Rightarrow> ann_tags a | Some ts \<Rightarrow> map trim ts),
      ann_updatedAt := now\<rparr>"
  have i: "ann_id a' = i" using assms(1) by (simp add: a'_def findAnnotation_id)
  have r: "put_annotation now (Some u) i b s
      = (Reply 200 (AnnotationBody (Some (toJSON a'))), saveAnnotation a' s)"
    using assms(1,2,4)
    by (simp add: put_annotation_def protect_def put_annotation_handler_def Let_def a'_def
        split: if_splits)
  have f: "findAnnotation i (saveAnnotation a' s) = Some a'"
    using assms(1) i by (rule findAnnotation_saveAnnotation)
  have c: "content a' = castContent (spread2 (hydrateContent (content a)) c)"
    by (simp add: a'_def)
  have g: "obj_get k (content a')
      = (if k \<in> set contentKeys
         then map_option (castField k)
                (case obj_get k c of Some v \<Rightarrow> Some v | None \<Rightarrow> obj_get k (hydrateContent (content a)))
         else None)" for k
    using assms(3) by (simp add: c obj_get_castContent obj_get_spread2 distinct_hydrateContent)
  have k1: "obj_get k (content a') = Some (castField k v)"
    if "k \<in> set contentKeys" "obj_get k c = Some v" for k v
    using that by (simp add: g)
  have k2: "obj_get k (content a') = map_option (castField k) (obj_get k (hydrateContent (content a)))"
    if "k \<in> set contentKeys" "obj_get k c = None" for k
    using that by (simp add: g)
  have k3: "obj_get k (content a') = obj_get k (hydrateContent (content a))"
    if "castContent (content a) = content a" "k \<in> set contentKeys" "obj_get k c = None" for k
  proof (cases "obj_get k (hydrateContent (content a))")
    case None
    with that show ?thesis by (simp add: k2)
  next
    case (Some v)
    with that castField_hydrated [OF that(1) Some] show ?thesis by (simp add: k2)
  qed
  have k4: "obj_get k (content a') = None" if "k \<notin> set contentKeys" for k
    using that by (simp add: g)
  show ?thesis using r f c k1 k2 k3 k4 by auto
qed

theorem update_merges_content_witness:
  "findAnnotation ''a1'' store0 = Some annOpen
   \<and> status_of (fst (put_annotation 9 (Some bob) ''a1'' textPatch store0)) = Some 200
   \<and> (\<exists>a'. findAnnotation ''a1'' (snd (put_annotation 9 (Some bob) ''a1'' textPatch store0)) = Some a'
          \<and> obj_get ''text'' (content a') = Some (JStr ''edited'')
          \<and> obj_get ''coordinates'' (content a') = Some (JObj [(''x'', JNum 10), (''y'', JNum 20)])
          \<and> obj_get ''style'' (content a') = Some (JObj styleDefaults))"
proof -
  have f: "findAnnotation ''a1'' store0 = Some annOpen"
    by (simp add: findAnnotation_def store0_def annOpen_def)
  have p: "patch_content textPatch = Some [(''text'', JStr ''edited'')]"
    by (simp add: textPatch_def)
  have d: "distinct (map fst [(''text'', JStr ''edited'')])" by simp
  have h: "hydrateContent (content annOpen)
      = [(''text'', JStr ''note''), (''coordinates'', JObj [(''x'', JNum 10), (''y'', JNum 20)]),
         (''bounds'', JObj []), (''points'', JArr []), (''style'', JObj styleDefaults)]"
    by (simp add: annOpen_def noteStored_def noteContent_def hydrateContent_def hydrateStyle_def
        obj_get_def styleDefaults_def)
  have c: "castContent (spread2 (hydrateContent (content annOpen)) [(''text'', JStr ''edited'')])
      = [(''text'', JStr ''edited''), (''coordinates'', JObj [(''x'', JNum 10), (''y'', JNum 20)]),
         (''bounds'', JObj []), (''points'', JArr []), (''style'', JObj styleDefaults)]"
    by (simp add: h spread2_def castContent_def restrict_keys_def contentKeys_def castField_def
        coordinateKeys_def boundsKeys_def styleKeys_def styleDefaults_def castPoint_def)
  have v: "validContent [(''text'', JStr ''edited''), (''coordinates'', JObj [(''x'', JNum 10), (''y'', JNum 20)]),
         (''bounds'', JObj []), (''points'', JArr []), (''style'', JObj styleDefaults)]"
    by (simp add: validContent_def obj_get_def numbersObject_def isNumber_def validStyle_def
        styleDefaults_def validColor_def isHex_def numberIn_def)
  have w: "hasCoordinates [(''text'', JStr ''edited''), (''coordinates'', JObj [(''x'', JNum 10), (''y'', JNum 20)]),
         (''bounds'', JObj []), (''points'', JArr []), (''style'', JObj styleDefaults)]"
    by (simp add: hasCoordinates_def obj_get_def)
  have i: "ann_user annOpen = uid bob"
    by (simp add: annOpen_def bob_def)
  have s: "status_of (fst (put_annotation 9 (Some bob) ''a1'' textPatch store0)) = Some 200"
    using f i v w
    by (simp add: put_annotation_def protect_def put_annotation_handler_def Let_def
        textPatch_def c)
  have st: "castContent (content annOpen) = content annOpen"
    by (simp add: annOpen_def noteStored_def noteContent_def castContent_def restrict_keys_def
        contentKeys_def castField_def coordinateKeys_def styleKeys_def styleDefaults_def)
  have k: "''text'' \<in> set contentKeys" "''coordinates'' \<in> set contentKeys"
    "''style'' \<in> set contentKeys"
    "obj_get ''text'' [(''text'', JStr ''edited'')] = Some (JStr ''edited'')"
    "obj_get ''coordinates'' [(''text'', JStr ''edited'')] = None"
    "obj_get ''style'' [(''text'', JStr ''edited'')] = None"
    "castField ''text'' (JStr ''edited'') = JStr ''edited''"
    by (simp_all add: contentKeys_def obj_get_def castField_def)
  have g: "obj_get ''coordinates'' (hydrateContent (content annOpen))
             = Some (JObj [(''x'', JNum 10), (''y'', JNum 20)])"
    "obj_get ''style'' (hydrateContent (content annOpen)) = Some (JObj styleDefaults)"
    by (simp_all add: h obj_get_def)
  from update_merges_content [OF f p d s] obtain a' where a':
    "findAnnotation ''a1'' (snd (put_annotation 9 (Some bob) ''a1'' textPatch store0)) = Some a'"
    "\<forall>k v. k \<in> set contentKeys \<and> obj_get k [(''text'', JStr ''edited'')] = Some v \<longrightarrow>
        obj_get k (content a') = Some (castField k v)"
    "castContent (content annOpen) = content annOpen \<longrightarrow>
       (\<forall>k. k \<in> set contentKeys \<and> obj_get k [(''text'', JStr ''edited'')] = None \<longrightarrow>
          obj_get k (content a') = obj_get k (hydrateContent (content annOpen)))"
    by blast
  have "obj_get ''text'' (content a') = Some (JStr ''edited'')"
    using a'(2) k by fastforce
  moreover have "obj_get ''coordinates'' (content a') = Some (JObj [(''x'', JNum 10), (''y'', JNum 20)])"
    using a'(3) st k g by simp
  moreover have "obj_get ''style'' (content a') = Some (JObj styleDefaults)"
    using a'(3) st k g by simp
  ultimately show ?thesis using f s a'(1) by blast
qed

subsection \<open>Creating an annotation\<close>

lemma find_append_new:
  "find P xs = None \<Longrightarrow> P y \<Longrightarrow> find P (xs @ [y]) = Some y"
  by (induction xs) (auto split: if_splits)

lemma noteContent_created:
  "minimize (hydrateContent (castContent noteContent)) = noteStored"
  by (simp add: noteStored_def noteContent_def castContent_def restrict_keys_def contentKeys_def
      castField_def coordinateKeys_def hydrateContent_def hydrateStyle_def minimize_def
      obj_get_def styleDefaults_def)

lemma noteStored_presented: "minimize (hydrateContent noteStored) = noteStored"
  by (simp add: noteStored_def noteContent_def hydrateContent_def hydrateStyle_def minimize_def
      obj_get_def styleDefaults_def)

lemma noteStored_valid: "hasCoordinates noteStored" "validContent noteStored"
  by (simp_all add: hasCoordinates_def noteStored_def noteContent_def obj_get_def
      validContent_def numbersObject_def isNumber_def validStyle_def styleDefaults_def
      validColor_def isHex_def numberIn_def)

lemma note_created:
  assumes "findPdf pdfId s = Some d" and "hasAccessAuth d u"
    and "findAnnotation newId s = None"
    and "req_pdfId b = Some pdfId" and "pdfId \<noteq> []"
    and "req_page b = Some pg" and "1 \<le> pg"
    and "req_type b = Some ty" and "ty \<in> set annotationTypes"
    and "req_content b = Some noteContent"
    and "req_tags b = None"
  shows "post_annotation now newId (Some u) b s
           = (Reply 201 (AnnotationBody (Some
                \<lparr>ann_id = newId, ann_pdf = pdfId, ann_user = uid u, page = pg, ann_type = ty,
                 content = noteStored,
                 isPrivate = (case req_isPrivate b of None \<Rightarrow> False | Some x \<Rightarrow> x), replies = [],
                 isResolved = False, ann_tags = [], ann_createdAt = now, ann_updatedAt = now\<rparr>)),
              s\<lparr>annotations := annotations s @
                [\<lparr>ann_id = newId, ann_pdf = pdfId, ann_user = uid u, page = pg, ann_type = ty,
                  content = noteStored,
                  isPrivate = (case req_isPrivate b of None \<Rightarrow> False | Some x \<Rightarrow> x), replies = [],
                  isResolved = False, ann_tags = [], ann_createdAt = now, ann_updatedAt = now\<rparr>]\<rparr>)"
proof -
  define a where "a = \<lparr>ann_id = newId, ann_pdf = pdfId, ann_user = uid u, page = pg, ann_type = ty,
      content = noteStored,
      isPrivate = (case req_isPrivate b of None \<Rightarrow> False | Some x \<Rightarrow> x), replies = [],
      isResolved = False, ann_tags = [], ann_createdAt = now, ann_updatedAt = now\<rparr>"
  have ty: "ty \<noteq> []" using assms(9) by (auto simp: annotationTypes_def)
  have pg: "pg \<noteq> 0" using assms(7) by auto
  have c: "Annotation_create now newId pdfId (uid u) pg ty noteContent
             (case req_isPrivate b of None \<Rightarrow> False | Some x \<Rightarrow> x) [] = Some a"
    using assms(7,9) noteStored_valid
    by (simp add: Annotation_create_def noteContent_created a_def validTags_def)
  have f: "findAnnotation newId (s\<lparr>annotations := annotations s @ [a]\<rparr>) = Some a"
    using assms(3) by (simp add: findAnnotation_def find_append_new a_def)
  have j: "toJSON a = a"
    by (simp add: toJSON_def a_def noteStored_presented)
  have i: "ann_id a = newId" by (simp add: a_def)
  have "post_annotation now newId (Some u) b s
          = (Reply 201 (AnnotationBody (Some a)), s\<lparr>annotations := annotations s @ [a]\<rparr>)"
    using assms(1,2,4,5,6,8,10,11) ty pg c f j i
    by (simp add: post_annotation_def protect_def post_annotation_handler_def Let_def)
  then show ?thesis by (simp add: a_def)
qed

text \<open>
  C7, as stated, fails: the content returned for the note is not the input plus the two
  style defaults color and opacity. It also has the key \<^verbatim>\<open>points\<close> with the empty array,
  which the input plus those defaults lacks, and its style also has \<^verbatim>\<open>strokeWidth\<close> 2.
\<close>

theorem roundtrip_equality_counterexample:
  "\<exists>a. fst (post_annotation 9 ''a3'' (Some bob) noteRequest store0) = Reply 201 (AnnotationBody (Some a))
      \<and> content a \<noteq> noteWithTwoDefaults
      \<and> obj_get ''points'' (content a) = Some (JArr [])
      \<and> obj_get ''points'' noteWithTwoDefaults = None
      \<and> (\<exists>st. obj_get ''style'' (content a) = Some (JObj st)
             \<and> obj_get ''strokeWidth'' st = Some (JNum 2))
      \<and> (\<exists>st. obj_get ''style'' noteWithTwoDefaults = Some (JObj st)
             \<and> obj_get ''strokeWidth'' st = None)"
proof -
  have f: "findPdf ''d2'' store0 = Some docPublic"
    by (simp add: findPdf_def store0_def docPrivate_def docPublic_def)
  have h: "hasAccessAuth docPublic bob"
    by (simp add: hasAccessAuth_def docPublic_def)
  have n: "findAnnotation ''a3'' store0 = None"
    by (simp add: findAnnotation_def store0_def annOpen_def annSecret_def)
  have q: "req_pdfId noteRequest = Some ''d2''" "''d2'' \<noteq> []" "req_page noteRequest = Some 1"
    "(1::rat) \<le> 1" "req_type noteRequest = Some ''text''" "''text'' \<in> set annotationTypes"
    "req_content noteRequest = Some noteContent" "req_tags noteRequest = None"
    by (simp_all add: noteRequest_def annotationTypes_def)
  have g: "noteStored \<noteq> noteWithTwoDefaults"
    "obj_get ''points'' noteStored = Some (JArr [])"
    "obj_get ''points'' noteWithTwoDefaults = None"
    "obj_get ''style'' noteStored = Some (JObj styleDefaults)"
    "obj_get ''strokeWidth'' styleDefaults = Some (JNum 2)"
    "obj_get ''style'' noteWithTwoDefaults
       = Some (JObj [(''color'', JStr ''#FFFF00''), (''opacity'', JNum (1 / 2))])"
    "obj_get ''strokeWidth'' [(''color'', JStr ''#FFFF00''), (''opacity'', JNum (1 / 2))] = None"
    by (simp_all add: noteStored_def noteWithTwoDefaults_def noteContent_def obj_get_def
        styleDefaults_def)
  show ?thesis
    using g by (simp add: note_created [OF f h n q])
qed

text \<open>
  C7, as amended. Creating an annotation whose content is
  \<^verbatim>\<open>{text: "note", coordinates: {x: 10, y: 20}}\<close> with no style, on a document the author
  may read, under a fresh id, with a page of at least 1 and a type of the schema, answers
  201 with the created annotation, and fetching that id afterwards presents the same
  annotation. Its content is the input (text and coordinates unchanged) plus the
  server-assigned defaults: \<^verbatim>\<open>points\<close> as the empty array and the style with color
  \<^verbatim>\<open>#FFFF00\<close>, opacity 0.5, strokeWidth 2, fontSize 14 and fontFamily Arial.
\<close>

theorem annotation_roundtrip:
  assumes "findPdf pdfId s = Some d" and "hasAccessAuth d u"
    and "findAnnotation newId s = None"
    and "req_pdfId b = Some pdfId" and "pdfId \<noteq> []"
    and "req_page b = Some pg" and "1 \<le> pg"
    and "req_type b = Some ty" and "ty \<in> set annotationTypes"
    and "req_content b = Some noteContent"
    and "req_tags b = None"
  shows "\<exists>a. fst (post_annotation now newId (Some u) b s) = Reply 201 (AnnotationBody (Some a))
           \<and> map_option toJSON (findAnnotation newId (snd (post_annotation now newId (Some u) b s)))
               = Some a
           \<and> content a
               = [(''text'', JStr ''note''),
                  (''coordinates'', JObj [(''x'', JNum 10), (''y'', JNum 20)]),
                  (''points'', JArr []),
                  (''style'', JObj [(''color'', JStr ''#FFFF00''), (''opacity'', JNum (1 / 2)),
                                    (''strokeWidth'', JNum 2), (''fontSize'', JNum 14),
                                    (''fontFamily'', JStr ''Arial'')])]"
proof -
  have f: "find (\<lambda>a. ann_id a = newId) (annotations s) = None"
    using assms(3) by (simp add: findAnnotation_def)
  show ?thesis
    by (simp add: note_created [OF assms] findAnnotation_def find_append_new [OF f]
        toJSON_def noteStored_presented)
      (simp add: noteStored_def noteContent_def styleDefaults_def)
qed

theorem annotation_roundtrip_witness:
  "findPdf ''d2'' store0 = Some docPublic \<and> hasAccessAuth docPublic bob
   \<and> findAnnotation ''a3'' store0 = None
   \<and> (\<exists>a. fst (post_annotation 9 ''a3'' (Some bob) noteRequest store0) = Reply 201 (AnnotationBody (Some a))
          \<and> map_option toJSON (findAnnotation ''a3'' (snd (post_annotation 9 ''a3'' (Some bob) noteRequest store0)))
              = Some a
          \<and> content a
              = [(''text'', JStr ''note''),
                 (''coordinates'', JObj [(''x'', JNum 10), (''y'', JNum 20)]),
                 (''points'', JArr []),
                 (''style'', JObj [(''color'', JStr ''#FFFF00''), (''opacity'', JNum (1 / 2)),
                                   (''strokeWidth'', JNum 2), (''fontSize'', JNum 14),
                                   (''fontFamily'', JStr ''Arial'')])])"
proof -
  have f: "findPdf ''d2'' store0 = Some docPublic"
    by (simp add: findPdf_def store0_def docPrivate_def docPublic_def)
  have h: "hasAccessAuth docPublic bob"
    by (simp add: hasAccessAuth_def docPublic_def)
  have n: "findAnnotation ''a3'' store0 = None"
    by (simp add: findAnnotation_def store0_def annOpen_def annSecret_def)
  have q: "req_pdfId noteRequest = Some ''d2''" "''d2'' \<noteq> []" "req_page noteRequest = Some 1"
    "(1::rat) \<le> 1" "req_type noteRequest = Some ''text''" "''text'' \<in> set annotationTypes"
    "req_content noteRequest = Some noteContent" "req_tags noteRequest = None"
    by (simp_all add: noteRequest_def annotationTypes_def)
  show ?thesis
    using f h n annotation_roundtrip [OF f h n q, of 9] by blast
qed

subsection \<open>Who may update or delete an annotation\<close>

text \<open>
  C8, as stated, fails for updates: an admin who is not the author of an annotation is
  answered 403 by the update route.
\<close>

theorem admin_update_counterexample:
  "findAnnotation ''a1'' store0 = Some annOpen
   \<and> role adminUser = ''admin''
   \<and> status_of (fst (put_annotation 9 (Some adminUser) ''a1'' textPatch store0)) = Some 403"
  by (simp add: findAnnotation_def put_annotation_def protect_def put_annotation_handler_def
      store0_def annOpen_def adminUser_def)

text \<open>
  C8, as amended. For a stored annotation and an authenticated actor: the update route
  answers 403 exactly when the actor is not the author (an admin included), and answers 200
  only to the author; the delete route answers 403 exactly when the actor is neither the
  author nor an admin, and 200 exactly when the actor is the author or an admin. A 403 of
  either route leaves the store unchanged.
\<close>

theorem annotation_mutation_authz:
  assumes "findAnnotation i s = Some a"
  shows "(status_of (fst (put_annotation now (Some u) i b s)) = Some 403) = (ann_user a \<noteq> uid u)
       \<and> (status_of (fst (put_annotation now (Some u) i b s)) = Some 200 \<longrightarrow> ann_user a = uid u)
       \<and> (status_of (fst (put_annotation now (Some u) i b s)) = Some 403 \<longrightarrow>
            snd (put_annotation now (Some u) i b s) = s)
       \<and> (status_of (fst (delete_annotation (Some u) i s)) = Some 403)
            = (ann_user a \<noteq> uid u \<and> role u \<noteq> ''admin'')
       \<and> (status_of (fst (delete_annotation (Some u) i s)) = Some 200)
            = (ann_user a = uid u \<or> role u = ''admin'')
       \<and> (status_of (fst (delete_annotation (Some u) i s)) = Some 403 \<longrightarrow>
            snd (delete_annotation (Some u) i s) = s)"
proof -
  have p: "(status_of (fst (put_annotation now (Some u) i b s)) = Some 403) = (ann_user a \<noteq> uid u)"
    using assms
    by (simp add: put_annotation_def protect_def put_annotation_handler_def Let_def)
  have q: "status_of (fst (put_annotation now (Some u) i b s)) = Some 200 \<Longrightarrow> ann_user a = uid u"
    using assms
    by (simp add: put_annotation_def protect_def put_annotation_handler_def Let_def split: if_splits)
  have r: "status_of (fst (put_annotation now (Some u) i b s)) = Some 403 \<Longrightarrow>
      snd (put_annotation now (Some u) i b s) = s"
    using assms
    by (simp add: put_annotation_def protect_def put_annotation_handler_def Let_def split: if_splits)
  have d: "(status_of (fst (delete_annotation (Some u) i s)) = Some 403)
      = (ann_user a \<noteq> uid u \<and> role u \<noteq> ''admin'')"
    "(status_of (fst (delete_annotation (Some u) i s)) = Some 200)
      = (ann_user a = uid u \<or> role u = ''admin'')"
    using assms
    by (auto simp: delete_annotation_def protect_def delete_annotation_handler_def)
  have e: "status_of (fst (delete_annotation (Some u) i s)) = Some 403 \<Longrightarrow>
      snd (delete_annotation (Some u) i s) = s"
    using assms
    by (simp add: delete_annotation_def protect_def delete_annotation_handler_def split: if_splits)
  show ?thesis using p q r d e by blast
qed

theorem annotation_mutation_authz_witness:
  "findAnnotation ''a1'' store0 = Some annOpen
   \<and> status_of (fst (put_annotation 9 (Some adminUser) ''a1'' textPatch store0)) = Some 403
   \<and> snd (put_annotation 9 (Some adminUser) ''a1'' textPatch store0) = store0
   \<and> status_of (fst (delete_annotation (Some adminUser) ''a1'' store0)) = Some 200
   \<and> status_of (fst (delete_annotation (Some alice) ''a1'' store0)) = Some 403
   \<and> snd (delete_annotation (Some alice) ''a1'' store0) = store0"
proof -
  have f: "findAnnotation ''a1'' store0 = Some annOpen"
    by (simp add: findAnnotation_def store0_def annOpen_def)
  have u: "ann_user annOpen \<noteq> uid adminUser" "role adminUser = ''admin''"
    "ann_user annOpen \<noteq> uid alice" "role alice \<noteq> ''admin''"
    by (simp_all add: annOpen_def adminUser_def alice_def)
  show ?thesis
    using f u annotation_mutation_authz [OF f, of 9 adminUser textPatch]
      annotation_mutation_authz [OF f, of 9 alice textPatch]
    by simp
qed

subsection \<open>The upload default of isPublic\<close>

lemma castBoolean_true: "castBoolean ''true'' = Some True"
  by (simp add: castBoolean_def)

lemma PDF_create_true:
  "PDF_create now newId ttl descr f owner ''true'' tgs = Some p \<Longrightarrow> isPublic p"
  by (auto simp: PDF_create_def castBoolean_true Let_def split: if_splits)

lemma upload_handler_created:
  assumes "body_isPublic b = None"
    and "status_of (fst (upload_handler now newId b file u t)) = Some 201"
  shows "\<exists>p. upload_handler now newId b file u t = (Reply 201 (PdfSummary p), t\<lparr>pdfs := pdfs t @ [p]\<rparr>)
           \<and> isPublic p"
proof (cases "file")
  case None
  with assms show ?thesis by (simp add: upload_handler_def)
next
  case (Some f)
  with assms show ?thesis
    by (auto simp: upload_handler_def Let_def split: option.splits dest: PDF_create_true)
qed

text \<open>
  C9. When the multipart form has no \<^verbatim>\<open>isPublic\<close> field, every successful upload
  (status 201) creates a document whose \<^verbatim>\<open>isPublic\<close> is true, although the default the
  schema declares for it is false.
\<close>

theorem upload_default_public:
  assumes "body_isPublic b = None"
    and "status_of (fst (post_upload now newId env k v file b s)) = Some 201"
  shows "\<exists>p. fst (post_upload now newId env k v file b s) = Reply 201 (PdfSummary p)
           \<and> pdfs (snd (post_upload now newId env k v file b s)) = pdfs s @ [p]
           \<and> isPublic p \<and> \<not> pdfSchema_isPublic_default"
proof -
  from assms(2) obtain u where v: "v = Some u"
    by (cases v) (auto simp: post_upload_def protect_def)
  show ?thesis
  proof (cases "upload_single env k file")
    case (Inl err)
    with assms(2) v show ?thesis
      by (cases err)
        (auto simp: post_upload_def protect_def handleMulterError_def split: if_splits)
  next
    case (Inr r)
    show ?thesis
    proof (cases r)
      case None
      with Inr assms(2) v show ?thesis
        by (simp add: post_upload_def protect_def upload_handler_def)
    next
      case (Some f)
      with Inr assms(2) v
      have h: "status_of (fst (upload_handler now newId b (Some f) u (s\<lparr>files := sf_path f # files s\<rparr>))) = Some 201"
        by (simp add: post_upload_def protect_def)
      from upload_handler_created [OF assms(1) h] Inr Some v show ?thesis
        by (auto simp: post_upload_def protect_def pdfSchema_isPublic_default_def)
    qed
  qed
qed


theorem upload_default_public_witness:
  "body_isPublic emptyForm = None
   \<and> status_of (fst (post_upload 9 ''d3'' None ''k3'' (Some alice) (Some smallFile) emptyForm store0)) = Some 201
   \<and> (\<exists>p. fst (post_upload 9 ''d3'' None ''k3'' (Some alice) (Some smallFile) emptyForm store0)
             = Reply 201 (PdfSummary p)
          \<and> isPublic p)"
proof -
  have e: "body_isPublic emptyForm = None"
    by (simp add: emptyForm_def)
  have x: "extname ''small.pdf'' = ''.pdf''"
    by (simp add: extname_def Let_def)
  have t: "trim ''small.pdf'' = ''small.pdf''" "trim [] = []"
    by (simp_all add: trim_def isSpace_def)
  have u: "upload_single None ''k3'' (Some smallFile)
      = Inr (Some \<lparr>sf_filename = ''k3.pdf'', sf_path = ''uploads/pdfs/k3.pdf'',
                   sf_originalname = ''small.pdf'', sf_mimetype = ''application/pdf'', sf_size = 10\<rparr>)"
    by (simp add: upload_single_def smallFile_def fileFilter_def maxFileSize_def x Let_def)
  have h: "status_of (fst (post_upload 9 ''d3'' None ''k3'' (Some alice) (Some smallFile) emptyForm store0)) = Some 201"
    by (simp add: post_upload_def protect_def u upload_handler_def emptyForm_def PDF_create_def
        castBoolean_def t validPdf_def Let_def)
  show ?thesis
    using e h upload_default_public [OF e h] by blast
qed

subsection \<open>Replies to a private annotation\<close>

text \<open>
  C10. For a stored private annotation, a reply request never changes the store and is
  never answered 201, whoever sends it; every authenticated actor (the annotation's author
  and the document's owner included) who sends a non-blank text is answered 403, the
  annotation's document being stored.
\<close>

theorem private_annotation_no_reply:
  assumes "findAnnotation i s = Some a" and "isPrivate a"
  shows "snd (post_reply now v i txt s) = s
       \<and> status_of (fst (post_reply now v i txt s)) \<noteq> Some 201
       \<and> (\<forall>u t. v = Some u \<and> txt = Some t \<and> trim t \<noteq> [] \<and> findPdf (ann_pdf a) s \<noteq> None \<longrightarrow>
            status_of (fst (post_reply now v i txt s)) = Some 403)"
proof -
  have a: "snd (post_reply now v i txt s) = s \<and> status_of (fst (post_reply now v i txt s)) \<noteq> Some 201"
    using assms
    by (cases v; cases "txt")
      (auto simp: post_reply_def protect_def post_reply_handler_def split: option.splits)
  have b: "status_of (fst (post_reply now v i txt s)) = Some 403"
    if "v = Some u" "txt = Some t" "trim t \<noteq> []" "findPdf (ann_pdf a) s \<noteq> None" for u t
    using assms that
    by (auto simp: post_reply_def protect_def post_reply_handler_def)
  show ?thesis using a b by blast
qed

theorem private_annotation_no_reply_witness:
  "findAnnotation ''a2'' store0 = Some annSecret \<and> isPrivate annSecret
   \<and> ann_user annSecret = uid alice \<and> pdf_user docPublic = uid alice
   \<and> findPdf (ann_pdf annSecret) store0 = Some docPublic
   \<and> status_of (fst (post_reply 9 (Some alice) ''a2'' (Some ''hi'') store0)) = Some 403
   \<and> snd (post_reply 9 (Some alice) ''a2'' (Some ''hi'') store0) = store0"
proof -
  have f: "findAnnotation ''a2'' store0 = Some annSecret"
    by (simp add: findAnnotation_def store0_def annOpen_def annSecret_def)
  have p: "isPrivate annSecret" "ann_user annSecret = uid alice" "pdf_user docPublic = uid alice"
    by (simp_all add: annSecret_def alice_def docPublic_def)
  have d: "findPdf (ann_pdf annSecret) store0 = Some docPublic"
    by (simp add: findPdf_def store0_def annSecret_def docPrivate_def docPublic_def)
  have t: "trim ''hi'' \<noteq> []"
    by (simp add: trim_def isSpace_def)
  show ?thesis
    using f p d t private_annotation_no_reply [OF f p(1), of 9 "Some alice" "Some ''hi''"]
    by simp
qed

end
